theory Spec2Isabelle
  imports Main
begin

section \<open>JavaScript strings\<close>

text \<open>
  A JavaScript string is a sequence of 16-bit code units. Here it is a \<^typ>\<open>string\<close>
  that spells the code units one after another: a unit below 0x80 as one byte, a unit
  below 0x800 as two bytes and any other unit as three bytes (the UTF-8 scheme, applied
  to each unit). ASCII text is written as it is, concatenation is concatenation, and two
  strings are equal exactly when their code units are.
\<close>

definition byte :: "nat \<Rightarrow> char" where
  "byte n = Char (odd n) (odd (n div 2)) (odd (n div 4)) (odd (n div 8))
                 (odd (n div 16)) (odd (n div 32)) (odd (n div 64)) (odd (n div 128))"

definition code_unit :: "nat \<Rightarrow> string" where
  "code_unit n =
     (if n < 128 then [byte n]
      else if n < 2048 then [byte (192 + n div 64), byte (128 + n mod 64)]
      else [byte (224 + n div 4096), byte (128 + (n div 64) mod 64), byte (128 + n mod 64)])"

text \<open>The first code unit of a string, as \<open>s[0]\<close> reads it.\<close>

fun first_unit :: "string \<Rightarrow> string" where
  "first_unit [] = []"
| "first_unit (c # cs) =
     (if (of_char c :: nat) < 192 then [c]
      else if (of_char c :: nat) < 224 then c # take 1 cs
      else c # take 2 cs)"

fun startsWith :: "string \<Rightarrow> string \<Rightarrow> bool" where
  "startsWith s [] = True"
| "startsWith [] (p # ps) = False"
| "startsWith (c # cs) (p # ps) = (c = p \<and> startsWith cs ps)"

text \<open>A number in a template literal: the decimal digits of a natural number.\<close>

fun decimal :: "nat \<Rightarrow> string" where
  "decimal n =
     (if n < 10 then [''0123456789'' ! n]
      else decimal (n div 10) @ [''0123456789'' ! (n mod 10)])"

declare decimal.simps [simp del]

text \<open>
  The line terminators of ECMAScript, which \<open>.\<close> in a regular expression does not
  match: LF, CR, U+2028 and U+2029.
\<close>

definition lineTerminators :: "string list" where
  "lineTerminators =
     [[CHR 0x0A], [CHR 0x0D], [CHR 0xE2, CHR 0x80, CHR 0xA8], [CHR 0xE2, CHR 0x80, CHR 0xA9]]"

definition atLineTerminator :: "string \<Rightarrow> bool" where
  "atLineTerminator s = list_ex (startsWith s) lineTerminators"

text \<open>
  \<open>String.prototype.trim\<close> removes white space and line terminators from both ends:
  U+0009 to U+000D, U+0020, U+00A0, U+1680, U+2000 to U+200A, U+2028, U+2029, U+202F,
  U+205F, U+3000 and U+FEFF.
\<close>

definition whiteSpace :: "string list" where
  "whiteSpace =
     [[CHR 0x09], [CHR 0x0A], [CHR 0x0B], [CHR 0x0C], [CHR 0x0D], [CHR 0x20],
      [CHR 0xC2, CHR 0xA0], [CHR 0xE1, CHR 0x9A, CHR 0x80],
      [CHR 0xE2, CHR 0x80, CHR 0x80], [CHR 0xE2, CHR 0x80, CHR 0x81],
      [CHR 0xE2, CHR 0x80, CHR 0x82], [CHR 0xE2, CHR 0x80, CHR 0x83],
      [CHR 0xE2, CHR 0x80, CHR 0x84], [CHR 0xE2, CHR 0x80, CHR 0x85],
      [CHR 0xE2, CHR 0x80, CHR 0x86], [CHR 0xE2, CHR 0x80, CHR 0x87],
      [CHR 0xE2, CHR 0x80, CHR 0x88], [CHR 0xE2, CHR 0x80, CHR 0x89],
      [CHR 0xE2, CHR 0x80, CHR 0x8A], [CHR 0xE2, CHR 0x80, CHR 0xA8],
      [CHR 0xE2, CHR 0x80, CHR 0xA9], [CHR 0xE2, CHR 0x80, CHR 0xAF],
      [CHR 0xE2, CHR 0x81, CHR 0x9F], [CHR 0xE3, CHR 0x80, CHR 0x80],
      [CHR 0xEF, CHR 0xBB, CHR 0xBF]]"

text \<open>
  The code units of a string, first to last, each as the bytes that spell it.
\<close>

fun units :: "string \<Rightarrow> string list" where
  "units [] = []"
| "units (c # cs) =
     (if (of_char c :: nat) < 192 then [c] # units cs
      else if (of_char c :: nat) < 224 then (c # take 1 cs) # units (drop 1 cs)
      else (c # take 2 cs) # units (drop 2 cs))"

definition trim :: "string \<Rightarrow> string" where
  "trim s =
     concat (rev (dropWhile (\<lambda>u. u \<in> set whiteSpace)
       (rev (dropWhile (\<lambda>u. u \<in> set whiteSpace) (units s)))))"

section \<open>JavaScript values and errors\<close>

text \<open>
  The values the script handles: \<open>undefined\<close> and what \<open>JSON.parse\<close> and
  \<open>response.json()\<close> build. A number is kept as the literal that denotes it; the
  double it stands for is the engine's business (see \<open>runtime\<close>). An object is the
  list of its own properties in the order they were written.
\<close>

datatype js_value =
    JUndefined
  | JNull
  | JBool bool
  | JNum string
  | JStr string
  | JArr "js_value list"
  | JObj "(string \<times> js_value) list"

datatype js_error = JsError (error_name: string) (message: string) (cause: "js_error option")

text \<open>\<open>new Error(msg)\<close>, and a \<open>TypeError\<close> of the engine (messages as V8 words them).\<close>

definition Error :: "string \<Rightarrow> js_error" where
  "Error msg = JsError ''Error'' msg None"

definition TypeError :: "string \<Rightarrow> js_error" where
  "TypeError msg = JsError ''TypeError'' msg None"

subsection \<open>The request body\<close>

datatype part = Part (part_text: string)

datatype content = Content (parts: "part list")

datatype tool = Google_search

record generation_config =
  responseMimeType :: string
  responseSchema :: js_value

record payload =
  contents :: "content list"
  systemInstruction :: content
  tools :: "tool list option"
  generationConfig :: "generation_config option"

subsection \<open>The environment\<close>

text \<open>
  What \<open>fetch\<close> settles to: a rejection, or a response with its status and with what
  \<open>response.json()\<close> settles to (a rejection when the body is not JSON).
\<close>

datatype fetch_outcome =
    Rejected js_error
  | Response (status: nat) (json: "js_error + js_value")

text \<open>\<open>response.ok\<close>: the status is in the range 200 to 299.\<close>

definition ok :: "nat \<Rightarrow> bool" where
  "ok st = (200 \<le> st \<and> st \<le> 299)"

text \<open>
  The script runs against an engine and a network that are not part of it:
  \<^item> \<open>Number_toString l\<close> is the string form of the double that the literal \<open>l\<close>
    denotes, and \<open>Number_isZero l\<close> says whether that double is zero;
  \<^item> \<open>fetch n p\<close> is what the call of \<open>fetch\<close> with body \<open>p\<close> settles to when
    \<open>n\<close> calls were made before it.
\<close>

record runtime =
  Number_toString :: "string \<Rightarrow> string"
  Number_isZero :: "string \<Rightarrow> bool"
  fetch :: "nat \<Rightarrow> payload \<Rightarrow> fetch_outcome"

subsection \<open>Conversions and property reads\<close>

fun truthy :: "runtime \<Rightarrow> js_value \<Rightarrow> bool" where
  "truthy rt JUndefined = False"
| "truthy rt JNull = False"
| "truthy rt (JBool b) = b"
| "truthy rt (JNum l) = (\<not> Number_isZero rt l)"
| "truthy rt (JStr s) = (s \<noteq> [])"
| "truthy rt (JArr xs) = True"
| "truthy rt (JObj kvs) = True"

fun nullish :: "js_value \<Rightarrow> bool" where
  "nullish JUndefined = True"
| "nullish JNull = True"
| "nullish v = False"

text \<open>
  \<open>Array.prototype.join\<close> with the separator \<open>,\<close>: the first element that cannot be
  converted raises.
\<close>

fun join :: "(js_error + string) list \<Rightarrow> js_error + string" where
  "join [] = Inr []"
| "join [r] = r"
| "join (r # rs) =
     (case r of
        Inl e \<Rightarrow> Inl e
      | Inr s \<Rightarrow> (case join rs of Inl e \<Rightarrow> Inl e | Inr t \<Rightarrow> Inr (s @ '','' @ t)))"

text \<open>
  \<open>ToString\<close>, as a template literal applies it. An array is joined, with \<open>null\<close>
  and \<open>undefined\<close> elements as empty strings. An object built from JSON has no callable
  \<open>toString\<close> of its own: when it has a property of that name the inherited method is
  hidden and the conversion raises, otherwise the inherited method answers.
\<close>

fun ToString :: "runtime \<Rightarrow> js_value \<Rightarrow> js_error + string" where
  "ToString rt JUndefined = Inr ''undefined''"
| "ToString rt JNull = Inr ''null''"
| "ToString rt (JBool b) = Inr (if b then ''true'' else ''false'')"
| "ToString rt (JNum l) = Inr (Number_toString rt l)"
| "ToString rt (JStr s) = Inr s"
| "ToString rt (JArr xs) =
     join (map (\<lambda>x. if nullish x then Inr [] else ToString rt x) xs)"
| "ToString rt (JObj kvs) =
     (if ''toString'' \<in> fst ` set kvs
      then Inl (TypeError ''Cannot convert object to primitive value'')
      else Inr ''[object Object]'')"

text \<open>
  Reading a property of a value that is neither \<open>null\<close> nor \<open>undefined\<close>, for the
  names the script reads (\<open>candidates\<close>, \<open>content\<close>, \<open>parts\<close>, \<open>text\<close>,
  \<open>groundingMetadata\<close>, \<open>groundingAttributions\<close>, \<open>web\<close>, \<open>uri\<close>, \<open>title\<close>,
  \<open>error\<close>, \<open>message\<close>, \<open>final_summary\<close>): no prototype has them, so only an
  object's own property answers, the last one written when a key is repeated.
\<close>

fun own :: "js_value \<Rightarrow> string \<Rightarrow> js_value" where
  "own (JObj kvs) k = (case map_of (rev kvs) k of Some v \<Rightarrow> v | None \<Rightarrow> JUndefined)"
| "own v k = JUndefined"

text \<open>\<open>v[0]\<close> for such a value: an array's first element, a string's first code unit.\<close>

fun index0 :: "js_value \<Rightarrow> js_value" where
  "index0 (JArr xs) = (case xs of [] \<Rightarrow> JUndefined | x # _ \<Rightarrow> x)"
| "index0 (JStr s) = (if s = [] then JUndefined else JStr (first_unit s))"
| "index0 v = own v ''0''"

text \<open>\<open>v.k\<close>: a \<open>TypeError\<close> on \<open>null\<close> and \<open>undefined\<close>.\<close>

fun get :: "js_value \<Rightarrow> string \<Rightarrow> js_error + js_value" where
  "get JUndefined k =
     Inl (TypeError (''Cannot read properties of undefined (reading '' @ [CHR 0x27] @ k @ [CHR 0x27] @ '')''))"
| "get JNull k =
     Inl (TypeError (''Cannot read properties of null (reading '' @ [CHR 0x27] @ k @ [CHR 0x27] @ '')''))"
| "get v k = Inr (own v k)"

text \<open>\<open>v?.k\<close> and \<open>v?.[0]\<close>.\<close>

definition opt :: "js_value \<Rightarrow> string \<Rightarrow> js_value" where
  "opt v k = (if nullish v then JUndefined else own v k)"

definition opt0 :: "js_value \<Rightarrow> js_value" where
  "opt0 v = (if nullish v then JUndefined else index0 v)"

section \<open>\<open>JSON.parse\<close>\<close>

text \<open>
  The grammar of ECMA-404, read in two passes: the text is cut into tokens one character
  at a time, then the tokens are assembled with a stack of the arrays and objects that are
  still open. A text that is not JSON gives \<open>None\<close> (the \<open>SyntaxError\<close>).
\<close>

datatype token =
    TLBrace | TRBrace | TLBracket | TRBracket | TColon | TComma
  | TString string | TNumber string | TTrue | TFalse | TNull

datatype num_state = NMinus | NZero | NInt | NDot | NFrac | NExp | NExpSign | NExpDigits

datatype lex_state =
    Between
  | InString string
  | Escape string
  | Unicode string "nat list"
  | InNumber num_state string
  | InWord string token

definition isDigit :: "char \<Rightarrow> bool" where
  "isDigit c = (c \<in> set ''0123456789'')"

fun num_step :: "num_state \<Rightarrow> char \<Rightarrow> num_state option" where
  "num_step NMinus c =
     (if c = CHR ''0'' then Some NZero else if isDigit c then Some NInt else None)"
| "num_step NZero c =
     (if c = CHR ''.'' then Some NDot
      else if c = CHR ''e'' \<or> c = CHR ''E'' then Some NExp else None)"
| "num_step NInt c =
     (if isDigit c then Some NInt else if c = CHR ''.'' then Some NDot
      else if c = CHR ''e'' \<or> c = CHR ''E'' then Some NExp else None)"
| "num_step NDot c = (if isDigit c then Some NFrac else None)"
| "num_step NFrac c =
     (if isDigit c then Some NFrac
      else if c = CHR ''e'' \<or> c = CHR ''E'' then Some NExp else None)"
| "num_step NExp c =
     (if c = CHR ''+'' \<or> c = CHR ''-'' then Some NExpSign
      else if isDigit c then Some NExpDigits else None)"
| "num_step NExpSign c = (if isDigit c then Some NExpDigits else None)"
| "num_step NExpDigits c = (if isDigit c then Some NExpDigits else None)"

fun accepting :: "num_state \<Rightarrow> bool" where
  "accepting NZero = True"
| "accepting NInt = True"
| "accepting NFrac = True"
| "accepting NExpDigits = True"
| "accepting s = False"

definition hexval :: "char \<Rightarrow> nat option" where
  "hexval c =
     (if isDigit c then Some (of_char c - 48)
      else if c \<in> set ''abcdef'' then Some (of_char c - 87)
      else if c \<in> set ''ABCDEF'' then Some (of_char c - 55)
      else None)"

definition unescape :: "char \<Rightarrow> char option" where
  "unescape c =
     (if c = CHR 0x22 \<or> c = CHR 0x5C \<or> c = CHR ''/'' then Some c
      else if c = CHR ''b'' then Some (CHR 0x08)
      else if c = CHR ''f'' then Some (CHR 0x0C)
      else if c = CHR ''n'' then Some (CHR 0x0A)
      else if c = CHR ''r'' then Some (CHR 0x0D)
      else if c = CHR ''t'' then Some (CHR 0x09)
      else None)"

text \<open>A character where a token may start.\<close>

definition between :: "char \<Rightarrow> (token list \<times> lex_state) option" where
  "between c =
     (if c \<in> set [CHR 0x20, CHR 0x09, CHR 0x0A, CHR 0x0D] then Some ([], Between)
      else if c = CHR ''{'' then Some ([TLBrace], Between)
      else if c = CHR ''}'' then Some ([TRBrace], Between)
      else if c = CHR ''['' then Some ([TLBracket], Between)
      else if c = CHR '']'' then Some ([TRBracket], Between)
      else if c = CHR '':'' then Some ([TColon], Between)
      else if c = CHR '','' then Some ([TComma], Between)
      else if c = CHR 0x22 then Some ([], InString [])
      else if c = CHR ''-'' then Some ([], InNumber NMinus [c])
      else if c = CHR ''0'' then Some ([], InNumber NZero [c])
      else if isDigit c then Some ([], InNumber NInt [c])
      else if c = CHR ''t'' then Some ([], InWord ''rue'' TTrue)
      else if c = CHR ''f'' then Some ([], InWord ''alse'' TFalse)
      else if c = CHR ''n'' then Some ([], InWord ''ull'' TNull)
      else None)"

fun lex_step :: "lex_state \<Rightarrow> char \<Rightarrow> (token list \<times> lex_state) option" where
  "lex_step Between c = between c"
| "lex_step (InString acc) c =
     (if c = CHR 0x22 then Some ([TString acc], Between)
      else if c = CHR 0x5C then Some ([], Escape acc)
      else if (of_char c :: nat) < 32 then None
      else Some ([], InString (acc @ [c])))"
| "lex_step (Escape acc) c =
     (if c = CHR ''u'' then Some ([], Unicode acc [])
      else (case unescape c of
              None \<Rightarrow> None
            | Some d \<Rightarrow> Some ([], InString (acc @ [d]))))"
| "lex_step (Unicode acc hs) c =
     (case hexval c of
        None \<Rightarrow> None
      | Some h \<Rightarrow>
          (if length hs = 3
           then Some ([], InString (acc @ code_unit (foldl (\<lambda>n d. 16 * n + d) 0 (hs @ [h]))))
           else Some ([], Unicode acc (hs @ [h]))))"
| "lex_step (InNumber st l) c =
     (case num_step st c of
        Some st' \<Rightarrow> Some ([], InNumber st' (l @ [c]))
      | None \<Rightarrow>
          (if accepting st
           then (case between c of
                   None \<Rightarrow> None
                 | Some (ts, s) \<Rightarrow> Some (TNumber l # ts, s))
           else None))"
| "lex_step (InWord w t) c =
     (case w of
        [] \<Rightarrow> None
      | x # xs \<Rightarrow>
          (if c \<noteq> x then None
           else if xs = [] then Some ([t], Between)
           else Some ([], InWord xs t)))"

fun lex_end :: "lex_state \<Rightarrow> token list option" where
  "lex_end Between = Some []"
| "lex_end (InNumber st l) = (if accepting st then Some [TNumber l] else None)"
| "lex_end s = None"

fun lex :: "lex_state \<Rightarrow> string \<Rightarrow> token list option" where
  "lex s [] = lex_end s"
| "lex s (c # cs) =
     (case lex_step s c of
        None \<Rightarrow> None
      | Some (ts, s') \<Rightarrow> (case lex s' cs of None \<Rightarrow> None | Some us \<Rightarrow> Some (ts @ us)))"

text \<open>
  The assembler. A frame is an open array with its elements so far, or an open object
  with its properties so far and the key whose value is being read.
\<close>

datatype frame = InArr "js_value list" | InObj "(string \<times> js_value) list" string

datatype parse_state =
    PValue
  | PArrFirst
  | PObjFirst
  | PKey "(string \<times> js_value) list"
  | PColon "(string \<times> js_value) list" string
  | PAfter js_value

text \<open>A token where a value must start.\<close>

fun shift :: "token \<Rightarrow> frame list \<Rightarrow> (parse_state \<times> frame list) option" where
  "shift (TString s) fs = Some (PAfter (JStr s), fs)"
| "shift (TNumber l) fs = Some (PAfter (JNum l), fs)"
| "shift TTrue fs = Some (PAfter (JBool True), fs)"
| "shift TFalse fs = Some (PAfter (JBool False), fs)"
| "shift TNull fs = Some (PAfter JNull, fs)"
| "shift TLBracket fs = Some (PArrFirst, fs)"
| "shift TLBrace fs = Some (PObjFirst, fs)"
| "shift t fs = None"

fun parse_step :: "parse_state \<Rightarrow> frame list \<Rightarrow> token \<Rightarrow> (parse_state \<times> frame list) option" where
  "parse_step PValue fs t = shift t fs"
| "parse_step PArrFirst fs t =
     (if t = TRBracket then Some (PAfter (JArr []), fs) else shift t (InArr [] # fs))"
| "parse_step PObjFirst fs t =
     (case t of
        TRBrace \<Rightarrow> Some (PAfter (JObj []), fs)
      | TString k \<Rightarrow> Some (PColon [] k, fs)
      | _ \<Rightarrow> None)"
| "parse_step (PKey kvs) fs t =
     (case t of TString k \<Rightarrow> Some (PColon kvs k, fs) | _ \<Rightarrow> None)"
| "parse_step (PColon kvs k) fs t =
     (if t = TColon then Some (PValue, InObj kvs k # fs) else None)"
| "parse_step (PAfter v) [] t = None"
| "parse_step (PAfter v) (InArr es # fs) t =
     (case t of
        TComma \<Rightarrow> Some (PValue, InArr (es @ [v]) # fs)
      | TRBracket \<Rightarrow> Some (PAfter (JArr (es @ [v])), fs)
      | _ \<Rightarrow> None)"
| "parse_step (PAfter v) (InObj kvs k # fs) t =
     (case t of
        TComma \<Rightarrow> Some (PKey (kvs @ [(k, v)]), fs)
      | TRBrace \<Rightarrow> Some (PAfter (JObj (kvs @ [(k, v)])), fs)
      | _ \<Rightarrow> None)"

fun parse :: "parse_state \<Rightarrow> frame list \<Rightarrow> token list \<Rightarrow> js_value option" where
  "parse (PAfter v) [] [] = Some v"
| "parse p fs [] = None"
| "parse p fs (t # ts) =
     (case parse_step p fs t of
        None \<Rightarrow> None
      | Some (p', fs') \<Rightarrow> parse p' fs' ts)"

definition JSON_parse :: "string \<Rightarrow> js_value option" where
  "JSON_parse s = (case lex Between s of None \<Rightarrow> None | Some ts \<Rightarrow> parse PValue [] ts)"

section \<open>The script: configuration\<close>

definition apiKey :: string where
  "apiKey = ''GEMINI_API_KEY''"

definition modelName :: string where
  "modelName = ''gemini-2.5-flash-lite''"

definition apiUrlBase :: string where
  "apiUrlBase =
     ''https://generativelanguage.googleapis.com/v1beta/models/'' @ modelName
       @ '':generateContent?key='' @ apiKey"

definition structuredSchema :: js_value where
  "structuredSchema =
     JObj [
       (''type'', JStr ''OBJECT''),
       (''properties'', JObj [
          (''reasoning_steps'', JObj [(''type'', JStr ''ARRAY''), (''items'', JObj [(''type'', JStr ''STRING'')])]),
          (''final_summary'', JObj [(''type'', JStr ''STRING'')]),
          (''confidence_score'', JObj [(''type'', JStr ''NUMBER''), (''description'', JStr ''Score from 0 to 100.'')])]),
       (''propertyOrdering'', JArr [JStr ''reasoning_steps'', JStr ''final_summary'', JStr ''confidence_score''])]"

section \<open>\<open>generateResponse\<close>\<close>

record source =
  uri :: js_value
  title :: js_value

record generation_result =
  result_text :: js_value
  result_sources :: "source list"

text \<open>What the script does to the world outside the page, in the order it does it.\<close>

datatype event =
    Fetch string payload
  | SetTimeout nat
  | ConsoleError string js_error
  | Alert string

fun isFetch :: "event \<Rightarrow> bool" where
  "isFetch (Fetch url p) = True"
| "isFetch e = False"

definition fetches :: "event list \<Rightarrow> nat" where
  "fetches evs = length (filter isFetch evs)"

text \<open>The request body, built from the four arguments (lines 69 to 85).\<close>

definition make_payload :: "string \<Rightarrow> string \<Rightarrow> bool \<Rightarrow> bool \<Rightarrow> payload" where
  "make_payload userQuery systemPrompt isGrounded isStructured =
     \<lparr> contents = [Content [Part userQuery]],
       systemInstruction = Content [Part systemPrompt],
       tools = (if isGrounded then Some [Google_search] else None),
       generationConfig =
         (if isStructured
          then Some \<lparr> responseMimeType = ''application/json'', responseSchema = structuredSchema \<rparr>
          else None) \<rparr>"

text \<open>
  The error raised for a response that is not \<open>ok\<close> (lines 98 to 102): the
  \<open>API Error\<close>, or the \<open>TypeError\<close> met while its message is put together.
\<close>

definition http_error :: "runtime \<Rightarrow> nat \<Rightarrow> js_error + js_value \<Rightarrow> js_error" where
  "http_error rt st body =
     (let errorData = (case body of Inl e \<Rightarrow> JObj [] | Inr v \<Rightarrow> v) in
      case get errorData ''error'' of
        Inl e \<Rightarrow> e
      | Inr err \<Rightarrow>
          (let m = opt err ''message'';
               errorMessage = (if truthy rt m then m else JStr (''HTTP error! status: '' @ decimal st))
           in case ToString rt errorMessage of
                Inl e \<Rightarrow> e
              | Inr s \<Rightarrow> Error (''API Error ('' @ decimal st @ ''): '' @ s)))"

text \<open>The callback of \<open>map\<close> (lines 123 to 126), and \<open>map\<close> itself.\<close>

definition attribution_source :: "js_value \<Rightarrow> js_error + source" where
  "attribution_source attribution =
     (case get attribution ''web'' of
        Inl e \<Rightarrow> Inl e
      | Inr web \<Rightarrow> Inr \<lparr> uri = opt web ''uri'', title = opt web ''title'' \<rparr>)"

fun map_attributions :: "js_value list \<Rightarrow> js_error + source list" where
  "map_attributions [] = Inr []"
| "map_attributions (a # as) =
     (case attribution_source a of
        Inl e \<Rightarrow> Inl e
      | Inr s \<Rightarrow> (case map_attributions as of Inl e \<Rightarrow> Inl e | Inr ss \<Rightarrow> Inr (s # ss)))"

text \<open>
  The grounding sources of a candidate (lines 117 to 128). Only an array has \<open>map\<close>.
\<close>

definition extract_sources :: "runtime \<Rightarrow> js_value \<Rightarrow> js_error + source list" where
  "extract_sources rt candidate =
     (let groundingMetadata = own candidate ''groundingMetadata'' in
      if truthy rt groundingMetadata \<and> truthy rt (own groundingMetadata ''groundingAttributions'')
      then (case own groundingMetadata ''groundingAttributions'' of
              JArr as \<Rightarrow>
                (case map_attributions as of
                   Inl e \<Rightarrow> Inl e
                 | Inr ss \<Rightarrow> Inr (filter (\<lambda>source. truthy rt (uri source) \<and> truthy rt (title source)) ss))
            | _ \<Rightarrow> Inl (TypeError ''groundingMetadata.groundingAttributions.map is not a function''))
      else Inr [])"

text \<open>Reading the parsed body of an \<open>ok\<close> response (lines 104 to 130).\<close>

definition read_result :: "runtime \<Rightarrow> js_value \<Rightarrow> js_error + generation_result" where
  "read_result rt result =
     (case get result ''candidates'' of
        Inl e \<Rightarrow> Inl e
      | Inr candidates \<Rightarrow>
          (let candidate = opt0 candidates in
           if \<not> truthy rt candidate then Inl (Error ''No candidates returned by the model.'')
           else
             (let textPart = opt0 (opt (own candidate ''content'') ''parts'') in
              if \<not> truthy rt textPart \<or> \<not> truthy rt (own textPart ''text'')
              then Inl (Error ''Generated text content is missing.'')
              else (case extract_sources rt candidate of
                      Inl e \<Rightarrow> Inl e
                    | Inr ss \<Rightarrow> Inr \<lparr> result_text = own textPart ''text'', result_sources = ss \<rparr>))))"

text \<open>
  The \<open>try\<close> block (lines 92 to 130) when \<open>n\<close> calls of \<open>fetch\<close> were made before:
  what it returns, or the error it raises.
\<close>

definition attempt :: "runtime \<Rightarrow> nat \<Rightarrow> payload \<Rightarrow> js_error + generation_result" where
  "attempt rt n p =
     (case fetch rt n p of
        Rejected e \<Rightarrow> Inl e
      | Response st body \<Rightarrow>
          (if \<not> ok st then Inl (http_error rt st body)
           else (case body of Inl e \<Rightarrow> Inl e | Inr result \<Rightarrow> read_result rt result)))"

definition maxRetries :: nat where
  "maxRetries = 5"

text \<open>
  The \<open>while\<close> loop (lines 90 to 142). Leaving the loop by its test returns
  \<open>undefined\<close>, which is \<open>Inr None\<close>.
\<close>

function generateResponse_loop ::
  "runtime \<Rightarrow> payload \<Rightarrow> nat \<Rightarrow> event list \<Rightarrow> (js_error + generation_result option) \<times> event list"
where
  "generateResponse_loop rt p retryCount evs =
     (if retryCount < maxRetries then
        (case attempt rt (fetches evs) p of
           Inr r \<Rightarrow> (Inr (Some r), evs @ [Fetch apiUrlBase p])
         | Inl error \<Rightarrow>
             (let evs' = evs @ [Fetch apiUrlBase p,
                                ConsoleError (''Attempt '' @ decimal (retryCount + 1) @ '' failed:'') error]
              in if retryCount + 1 \<ge> maxRetries
                 then (Inl (Error ''Max retries reached. Failed to generate content.''), evs')
                 else generateResponse_loop rt p (retryCount + 1)
                        (evs' @ [SetTimeout (2 ^ (retryCount + 1) * 1000)])))
      else (Inr None, evs))"
  by pat_completeness auto
termination
  by (relation "measure (\<lambda>(rt, p, retryCount, evs). maxRetries - retryCount)") auto

declare generateResponse_loop.simps [simp del]

definition generateResponse ::
  "runtime \<Rightarrow> string \<Rightarrow> string \<Rightarrow> bool \<Rightarrow> bool \<Rightarrow> event list
     \<Rightarrow> (js_error + generation_result option) \<times> event list"
where
  "generateResponse rt userQuery systemPrompt isGrounded isStructured evs =
     generateResponse_loop rt (make_payload userQuery systemPrompt isGrounded isStructured) 0 evs"

section \<open>The page\<close>

text \<open>
  The two variables of the script, the controls it reads, the elements it writes (for a
  class list, whether it holds \<open>hidden\<close>; for \<open>innerHTML\<close>, \<open>href\<close> and
  \<open>textContent\<close>, the string assigned), and the events so far.
\<close>

record link =
  href :: string
  target :: string
  className :: string
  textContent :: string

record page =
  currentResponse :: js_value
  currentSystemPrompt :: string
  events :: "event list"
  user_query_value :: string
  system_instruction_value :: string
  google_grounding_checked :: bool
  structured_output_checked :: bool
  generateButton_disabled :: bool
  buttonText_textContent :: string
  loadingIndicator_hidden :: bool
  responseContainer_innerHTML :: string
  citationContainer_hidden :: bool
  citationsDiv_children :: "link list"
  jsonSchemaDisplay_hidden :: bool
  summarySection_hidden :: bool
  summaryContainer_hidden :: bool
  summaryText_innerHTML :: string
  summarize_button_disabled :: bool
  summary_loading_hidden :: bool

text \<open>The \<open>change\<close> listeners of the two checkboxes (lines 34 to 50).\<close>

definition structured_output_change :: "page \<Rightarrow> page" where
  "structured_output_change st =
     (if structured_output_checked st
      then st\<lparr> jsonSchemaDisplay_hidden := False, google_grounding_checked := False \<rparr>
      else st\<lparr> jsonSchemaDisplay_hidden := True \<rparr>)"

definition google_grounding_change :: "page \<Rightarrow> page" where
  "google_grounding_change st =
     (if google_grounding_checked st
      then st\<lparr> structured_output_checked := False, jsonSchemaDisplay_hidden := True \<rparr>
      else st)"

definition setUILoading :: "bool \<Rightarrow> page \<Rightarrow> page" where
  "setUILoading isLoading st =
     (if isLoading
      then st\<lparr> generateButton_disabled := isLoading,
               buttonText_textContent := ''Generating...'',
               loadingIndicator_hidden := False,
               responseContainer_innerHTML :=
                 ''<div class=\"loading-spinner\"></div> <span class=\"ml-2\">Thinking...</span>'',
               citationContainer_hidden := True \<rparr>
      else st\<lparr> generateButton_disabled := isLoading,
               buttonText_textContent := ''Generate Response'',
               loadingIndicator_hidden := True \<rparr>)"

section \<open>\<open>displayResult\<close>\<close>

subsection \<open>The markdown replacements (lines 167 to 170)\<close>

text \<open>The longest run that \<open>(.*)\<close> matches at the start of a string, and the rest.\<close>

fun upToLineEnd :: "string \<Rightarrow> string \<times> string" where
  "upToLineEnd [] = ([], [])"
| "upToLineEnd (c # cs) =
     (if atLineTerminator (c # cs) then ([], c # cs)
      else (case upToLineEnd cs of (cap, rest) \<Rightarrow> (c # cap, rest)))"

text \<open>
  The shortest run that \<open>(.*?)\<close> matches before a closing \<open>**\<close>, and what follows
  the \<open>**\<close>; \<open>None\<close> when the line ends first.
\<close>

fun closing :: "string \<Rightarrow> (string \<times> string) option" where
  "closing [] = None"
| "closing (c # cs) =
     (if startsWith (c # cs) ''**'' then Some ([], drop 1 cs)
      else if atLineTerminator (c # cs) then None
      else (case closing cs of None \<Rightarrow> None | Some (cap, rest) \<Rightarrow> Some (c # cap, rest)))"

lemma upToLineEnd_length: "length (snd (upToLineEnd s)) \<le> length s"
  by (induction s) (auto split: prod.splits)

lemma closing_length: "closing s = Some (cap, rest) \<Longrightarrow> length rest < length s"
  by (induction s arbitrary: cap rest) (auto split: if_splits option.splits)

text \<open>\<open>replace(/\*\*(.*?)\*\*/g, '<strong>$1</strong>')\<close>\<close>

function strong :: "string \<Rightarrow> string" where
  "strong [] = []"
| "strong (c # cs) =
     (if startsWith (c # cs) ''**''
      then (case closing (drop 1 cs) of
              Some (cap, rest) \<Rightarrow> ''<strong>'' @ cap @ ''</strong>'' @ strong rest
            | None \<Rightarrow> c # strong cs)
      else c # strong cs)"
  by pat_completeness auto
termination
proof (relation "measure length")
  fix c :: char and cs x2 x y
  assume "closing (drop 1 cs) = Some x2" and "(x, y) = x2"
  then have "length y < length (drop 1 cs)"
    using closing_length [of "drop 1 cs" x y] by simp
  then show "(y, c # cs) \<in> measure length" by simp
qed simp_all

text \<open>
  \<open>replace(/### (.*)/g, '<h3>$1</h3>')\<close> with \<open>n = 3\<close>, and the same for \<open>##\<close>
  and \<open>h2\<close> with \<open>n = 2\<close>.
\<close>

function heading :: "nat \<Rightarrow> string \<Rightarrow> string" where
  "heading n [] = []"
| "heading n (c # cs) =
     (if startsWith (c # cs) (replicate n (CHR ''#'') @ '' '')
      then (case upToLineEnd (drop (n + 1) (c # cs)) of
              (cap, rest) \<Rightarrow>
                ''<h'' @ decimal n @ ''>'' @ cap @ ''</h'' @ decimal n @ ''>'' @ heading n rest)
      else c # heading n cs)"
  by pat_completeness auto
termination
proof (relation "measure (\<lambda>(n, s). length s)")
  fix n :: nat and c :: char and cs x y
  assume "(x, y) = upToLineEnd (drop (n + 1) (c # cs))"
  then have "y = snd (upToLineEnd (drop (n + 1) (c # cs)))"
    by (metis snd_conv)
  then have "length y \<le> length (drop (n + 1) (c # cs))"
    using upToLineEnd_length [of "drop (n + 1) (c # cs)"] by simp
  then show "((n, y), (n, c # cs)) \<in> measure (\<lambda>(n, s). length s)" by simp
qed simp_all

text \<open>\<open>replace(/\n/g, '<br>')\<close>\<close>

fun br :: "string \<Rightarrow> string" where
  "br [] = []"
| "br (c # cs) = (if c = CHR 0x0A then ''<br>'' @ br cs else c # br cs)"

definition markdown :: "string \<Rightarrow> string" where
  "markdown t = br (heading 2 (heading 3 (strong t)))"

subsection \<open>The function\<close>

text \<open>
  The receiver of \<open>.replace(...)\<close>: only a string has the method. \<open>what\<close> is the
  expression, for the message.
\<close>

fun replace_receiver :: "string \<Rightarrow> js_value \<Rightarrow> js_error + string" where
  "replace_receiver what (JStr t) = Inr t"
| "replace_receiver what JUndefined =
     Inl (TypeError (''Cannot read properties of undefined (reading '' @ [CHR 0x27] @ ''replace'' @ [CHR 0x27] @ '')''))"
| "replace_receiver what JNull =
     Inl (TypeError (''Cannot read properties of null (reading '' @ [CHR 0x27] @ ''replace'' @ [CHR 0x27] @ '')''))"
| "replace_receiver what v = Inl (TypeError (what @ ''.replace is not a function''))"

text \<open>
  The \<open>try\<close> block of the structured branch up to its first assignment (lines 157 to
  159): the value of \<open>final_summary\<close> and its string form, or \<open>None\<close> when anything
  raised (\<open>JSON.parse\<close> converts its argument to a string first; \<open>JSON.stringify\<close>
  of a parsed value does not raise, and its result is not used).
\<close>

definition structured_try :: "runtime \<Rightarrow> js_value \<Rightarrow> (js_value \<times> string) option" where
  "structured_try rt text =
     (case ToString rt text of
        Inl e \<Rightarrow> None
      | Inr s \<Rightarrow>
          (case JSON_parse s of
             None \<Rightarrow> None
           | Some jsonObject \<Rightarrow>
               (case get jsonObject ''final_summary'' of
                  Inl e \<Rightarrow> None
                | Inr final_summary \<Rightarrow>
                    (case ToString rt final_summary of
                       Inl e \<Rightarrow> None
                     | Inr shown \<Rightarrow> Some (final_summary, shown)))))"

text \<open>Lines 154 to 172: the error raised, if any, and the page.\<close>

definition show_text :: "runtime \<Rightarrow> js_value \<Rightarrow> bool \<Rightarrow> page \<Rightarrow> js_error option \<times> page" where
  "show_text rt text isStructured st =
     (if isStructured then
        (case structured_try rt text of
           Some (final_summary, shown) \<Rightarrow>
             (None, st\<lparr> responseContainer_innerHTML := ''<pre class=\"code-block\">'' @ shown @ ''</pre>'',
                        currentResponse := final_summary \<rparr>)
         | None \<Rightarrow>
             (case ToString rt text of
                Inl e \<Rightarrow> (Some e, st)
              | Inr raw \<Rightarrow>
                  (None, st\<lparr> responseContainer_innerHTML :=
                    ''<p class=\"text-red-600 font-bold\">Error parsing JSON output. Raw Text:</p><p class=\"whitespace-pre-wrap\">''
                      @ raw @ ''</p>'' \<rparr>)))
      else
        (case replace_receiver ''text'' text of
           Inl e \<Rightarrow> (Some e, st)
         | Inr t \<Rightarrow> (None, st\<lparr> responseContainer_innerHTML := ''<p>'' @ markdown t @ ''</p>'' \<rparr>)))"

text \<open>
  The callback of \<open>forEach\<close> (lines 177 to 184), from \<open>index\<close> on: the links are
  appended one by one until a conversion raises.
\<close>

fun append_links :: "runtime \<Rightarrow> nat \<Rightarrow> source list \<Rightarrow> link list \<Rightarrow> js_error option \<times> link list" where
  "append_links rt index [] ls = (None, ls)"
| "append_links rt index (source # rest) ls =
     (case ToString rt (uri source) of
        Inl e \<Rightarrow> (Some e, ls)
      | Inr u \<Rightarrow>
          (case ToString rt (title source) of
             Inl e \<Rightarrow> (Some e, ls)
           | Inr t \<Rightarrow>
               append_links rt (index + 1) rest
                 (ls @ [\<lparr> href = u, target = ''_blank'',
                          className = ''text-primary hover:underline block truncate'',
                          textContent = decimal (index + 1) @ ''. '' @ t \<rparr>])))"

text \<open>Lines 175 to 185.\<close>

definition show_sources :: "runtime \<Rightarrow> source list \<Rightarrow> page \<Rightarrow> js_error option \<times> page" where
  "show_sources rt sources st =
     (if sources \<noteq> [] then
        (case append_links rt 0 sources (citationsDiv_children st) of
           (raised, ls) \<Rightarrow> (raised, st\<lparr> citationContainer_hidden := False, citationsDiv_children := ls \<rparr>))
      else (None, st))"

definition displayResult ::
  "runtime \<Rightarrow> js_value \<Rightarrow> source list \<Rightarrow> bool \<Rightarrow> page \<Rightarrow> js_error option \<times> page"
where
  "displayResult rt text sources isStructured st =
     (case show_text rt text isStructured
             (st\<lparr> citationsDiv_children := [],
                  citationContainer_hidden := True,
                  summaryContainer_hidden := True,
                  summarySection_hidden := False,
                  currentResponse := text \<rparr>) of
        (Some e, st') \<Rightarrow> (Some e, st')
      | (None, st') \<Rightarrow> show_sources rt sources st')"

section \<open>The handlers\<close>

text \<open>The \<open>catch\<close> block of \<open>handleFormSubmit\<close> (lines 209 to 211).\<close>

definition generation_failed :: "js_error \<Rightarrow> page \<Rightarrow> page" where
  "generation_failed error st =
     st\<lparr> events := events st @ [ConsoleError ''Critical Generation Error:'' error],
         responseContainer_innerHTML :=
           ''<p class=\"text-red-500\">Generation failed: '' @ message error
             @ ''. Check the console for details.</p>'' \<rparr>"

text \<open>Destructuring \<open>undefined\<close>, were \<open>generateResponse\<close> to return it.\<close>

definition destructure_undefined :: js_error where
  "destructure_undefined =
     TypeError (''Cannot destructure property '' @ [CHR 0x27] @ ''text'' @ [CHR 0x27] @ '' of ''
       @ [CHR 0x27] @ ''(intermediate value)'' @ [CHR 0x27] @ '' as it is undefined.'')"

definition handleFormSubmit :: "runtime \<Rightarrow> page \<Rightarrow> page" where
  "handleFormSubmit rt st =
     (let userQuery = trim (user_query_value st);
          systemPrompt = trim (system_instruction_value st);
          isGrounded = google_grounding_checked st;
          isStructured = structured_output_checked st
      in if userQuery = []
         then st\<lparr> responseContainer_innerHTML := ''<p class=\"text-red-500\">Please enter a user query.</p>'' \<rparr>
         else
           (let st1 = setUILoading True (st\<lparr> currentSystemPrompt := systemPrompt \<rparr>)
            in case generateResponse rt userQuery systemPrompt isGrounded isStructured (events st1) of
                 (r, evs) \<Rightarrow>
                   setUILoading False
                     (case r of
                        Inl error \<Rightarrow> generation_failed error (st1\<lparr> events := evs \<rparr>)
                      | Inr None \<Rightarrow> generation_failed destructure_undefined (st1\<lparr> events := evs \<rparr>)
                      | Inr (Some res) \<Rightarrow>
                          (case displayResult rt (result_text res) (result_sources res) isStructured (st1\<lparr> events := evs \<rparr>) of
                             (None, st2) \<Rightarrow> st2
                           | (Some error, st2) \<Rightarrow> generation_failed error st2))))"

text \<open>The \<open>catch\<close> block of \<open>handleSummarize\<close> (lines 237 to 240).\<close>

definition summary_failed :: "js_error \<Rightarrow> page \<Rightarrow> page" where
  "summary_failed error st =
     st\<lparr> events := events st @ [ConsoleError ''Summary Generation Error:'' error],
         summaryText_innerHTML :=
           ''<p class=\"text-red-500\">Failed to generate summary: '' @ message error @ ''</p>'',
         summaryContainer_hidden := False \<rparr>"

text \<open>
  \<open>handleSummarize\<close>: the error it is rejected with, if any, and the page. The prompt
  is put together before the \<open>try\<close>, so a conversion that raises there leaves the
  handler at once.
\<close>

definition handleSummarize :: "runtime \<Rightarrow> page \<Rightarrow> js_error option \<times> page" where
  "handleSummarize rt st =
     (if \<not> truthy rt (currentResponse st)
      then (None, st\<lparr> events := events st @ [Alert ''No response to summarize''] \<rparr>)
      else
        (case ToString rt (currentResponse st) of
           Inl e \<Rightarrow> (Some e, st)
         | Inr shown \<Rightarrow>
             (let summaryPrompt =
                    ''Please provide a concise summary (2-3 sentences) of the following text:''
                      @ [CHR 0x0A, CHR 0x0A] @ shown;
                  st1 = st\<lparr> summarize_button_disabled := True, summary_loading_hidden := False \<rparr>
              in case generateResponse rt summaryPrompt
                        ''You are a helpful assistant that creates concise, clear summaries.''
                        False False (events st1) of
                   (r, evs) \<Rightarrow>
                     (None,
                      (case r of
                         Inl error \<Rightarrow> summary_failed error (st1\<lparr> events := evs \<rparr>)
                       | Inr None \<Rightarrow> summary_failed destructure_undefined (st1\<lparr> events := evs \<rparr>)
                       | Inr (Some res) \<Rightarrow>
                           (case replace_receiver ''summaryResult'' (result_text res) of
                              Inl error \<Rightarrow> summary_failed error (st1\<lparr> events := evs \<rparr>)
                            | Inr summaryResult \<Rightarrow>
                                st1\<lparr> events := evs,
                                     summaryText_innerHTML := br summaryResult,
                                     summaryContainer_hidden := False \<rparr>))
                      \<lparr> summarize_button_disabled := False, summary_loading_hidden := True \<rparr>))))"

definition closeSummary :: "page \<Rightarrow> page" where
  "closeSummary st = st\<lparr> summaryContainer_hidden := True \<rparr>"

section \<open>Concrete inputs\<close>

text \<open>
  Runtimes and pages on which the theorems below are run. Nothing below converts or tests
  a number on them, so the choice of their two number functions is immaterial there.
\<close>

text \<open>No network: every call of \<open>fetch\<close> is rejected.\<close>

definition offline :: runtime where
  "offline =
     \<lparr> Number_toString = (\<lambda>l. l),
       Number_isZero = (\<lambda>l. l = ''0''),
       fetch = (\<lambda>n p. Rejected (TypeError ''Failed to fetch'')) \<rparr>"

text \<open>A provider that answers every request with status 503 and an error body.\<close>

definition unavailable :: runtime where
  "unavailable =
     \<lparr> Number_toString = (\<lambda>l. l),
       Number_isZero = (\<lambda>l. l = ''0''),
       fetch = (\<lambda>n p. Response 503
         (Inr (JObj [(''error'', JObj [(''message'', JStr ''The model is overloaded.'')])]))) \<rparr>"

text \<open>The page as the script finds it: both variables are the empty string.\<close>

definition blank :: page where
  "blank =
     \<lparr> currentResponse = JStr [],
       currentSystemPrompt = [],
       events = [],
       user_query_value = [],
       system_instruction_value = [],
       google_grounding_checked = False,
       structured_output_checked = False,
       generateButton_disabled = False,
       buttonText_textContent = ''Generate Response'',
       loadingIndicator_hidden = True,
       responseContainer_innerHTML = [],
       citationContainer_hidden = True,
       citationsDiv_children = [],
       jsonSchemaDisplay_hidden = True,
       summarySection_hidden = True,
       summaryContainer_hidden = True,
       summaryText_innerHTML = [],
       summarize_button_disabled = False,
       summary_loading_hidden = True \<rparr>"

text \<open>
  A provider that answers every request with the text \<open>4.\<close> and two grounding
  attributions, the second without a title.
\<close>

definition answering :: runtime where
  "answering =
     \<lparr> Number_toString = (\<lambda>l. l),
       Number_isZero = (\<lambda>l. l = ''0''),
       fetch = (\<lambda>n p. Response 200
         (Inr (JObj [(''candidates'', JArr [JObj [
            (''content'', JObj [(''parts'', JArr [JObj [(''text'', JStr ''4.'')]])]),
            (''groundingMetadata'', JObj [(''groundingAttributions'', JArr [
               JObj [(''web'', JObj [(''uri'', JStr ''https://example.com/a''), (''title'', JStr ''A'')])],
               JObj [(''web'', JObj [(''uri'', JStr ''https://example.com/b'')])]])])]])]))) \<rparr>"

text \<open>
  A provider whose first call is rejected and whose later calls answer with the text
  \<open>4.\<close> and no \<open>groundingMetadata\<close>.
\<close>

definition recovering :: runtime where
  "recovering =
     \<lparr> Number_toString = (\<lambda>l. l),
       Number_isZero = (\<lambda>l. l = ''0''),
       fetch = (\<lambda>n p.
         if n = 0 then Rejected (TypeError ''Failed to fetch'')
         else Response 200
           (Inr (JObj [(''candidates'', JArr [JObj [
              (''content'', JObj [(''parts'', JArr [JObj [(''text'', JStr ''4.'')]])])]])]))) \<rparr>"

text \<open>The blank page with the form filled in.\<close>

definition asking :: page where
  "asking = blank\<lparr> user_query_value := '' What is 2+2? '', system_instruction_value := ''Be brief.'' \<rparr>"

section \<open>Notions of the specification\<close>

text \<open>An error wraps a cause when it carries it as its \<open>cause\<close>.\<close>

definition wraps :: "js_error \<Rightarrow> js_error \<Rightarrow> bool" where
  "wraps e c = (cause e = Some c)"

section \<open>Properties of the retry loop\<close>

lemma decimal_small [simp]: "n < 10 \<Longrightarrow> decimal n = [''0123456789'' ! n]"
  by (simp add: decimal.simps)

lemma decimal_large [simp]:
  "\<not> n < 10 \<Longrightarrow> decimal n = decimal (n div 10) @ [''0123456789'' ! (n mod 10)]"
  by (subst decimal.simps) simp

lemma fetches_append [simp]: "fetches (evs @ evs') = fetches evs + fetches evs'"
  by (simp add: fetches_def)

lemma fetches_simps [simp]:
  "fetches [] = 0"
  "fetches (Fetch url p # evs) = Suc (fetches evs)"
  "fetches (SetTimeout n # evs) = fetches evs"
  "fetches (ConsoleError s e # evs) = fetches evs"
  "fetches (Alert s # evs) = fetches evs"
  by (simp_all add: fetches_def)

text \<open>One turn of the loop, when the attempt raises and when it returns.\<close>

lemma loop_fail:
  "retryCount < maxRetries \<Longrightarrow> attempt rt (fetches evs) p = Inl error \<Longrightarrow>
   generateResponse_loop rt p retryCount evs =
     (if retryCount + 1 \<ge> maxRetries
      then (Inl (Error ''Max retries reached. Failed to generate content.''),
            evs @ [Fetch apiUrlBase p,
                   ConsoleError (''Attempt '' @ decimal (retryCount + 1) @ '' failed:'') error])
      else generateResponse_loop rt p (retryCount + 1)
             (evs @ [Fetch apiUrlBase p,
                     ConsoleError (''Attempt '' @ decimal (retryCount + 1) @ '' failed:'') error,
                     SetTimeout (2 ^ (retryCount + 1) * 1000)]))"
  by (subst generateResponse_loop.simps) (simp add: Let_def)

lemma loop_ok:
  "retryCount < maxRetries \<Longrightarrow> attempt rt (fetches evs) p = Inr r \<Longrightarrow>
   generateResponse_loop rt p retryCount evs = (Inr (Some r), evs @ [Fetch apiUrlBase p])"
  by (subst generateResponse_loop.simps) simp

text \<open>Five attempts that raise, one after the other, from the start of the loop.\<close>

lemma loop_exhausted:
  assumes a1: "attempt rt (fetches evs) p = Inl e1"
    and a2: "attempt rt (fetches evs + 1) p = Inl e2"
    and a3: "attempt rt (fetches evs + 2) p = Inl e3"
    and a4: "attempt rt (fetches evs + 3) p = Inl e4"
    and a5: "attempt rt (fetches evs + 4) p = Inl e5"
  shows "generateResponse_loop rt p 0 evs =
     (Inl (Error ''Max retries reached. Failed to generate content.''),
      evs @ [Fetch apiUrlBase p, ConsoleError ''Attempt 1 failed:'' e1, SetTimeout 2000,
             Fetch apiUrlBase p, ConsoleError ''Attempt 2 failed:'' e2, SetTimeout 4000,
             Fetch apiUrlBase p, ConsoleError ''Attempt 3 failed:'' e3, SetTimeout 8000,
             Fetch apiUrlBase p, ConsoleError ''Attempt 4 failed:'' e4, SetTimeout 16000,
             Fetch apiUrlBase p, ConsoleError ''Attempt 5 failed:'' e5])"
proof -
  let ?t1 = "evs @ [Fetch apiUrlBase p, ConsoleError ''Attempt 1 failed:'' e1, SetTimeout 2000]"
  let ?t2 = "?t1 @ [Fetch apiUrlBase p, ConsoleError ''Attempt 2 failed:'' e2, SetTimeout 4000]"
  let ?t3 = "?t2 @ [Fetch apiUrlBase p, ConsoleError ''Attempt 3 failed:'' e3, SetTimeout 8000]"
  let ?t4 = "?t3 @ [Fetch apiUrlBase p, ConsoleError ''Attempt 4 failed:'' e4, SetTimeout 16000]"
  have f1: "fetches ?t1 = fetches evs + 1" and f2: "fetches ?t2 = fetches evs + 2"
    and f3: "fetches ?t3 = fetches evs + 3" and f4: "fetches ?t4 = fetches evs + 4"
    by simp_all
  have s1: "generateResponse_loop rt p 0 evs = generateResponse_loop rt p (Suc 0) ?t1"
    using loop_fail [OF _ a1, of 0] by (simp add: maxRetries_def)
  have s2: "generateResponse_loop rt p (Suc 0) ?t1 = generateResponse_loop rt p (Suc (Suc 0)) ?t2"
    using loop_fail [OF _ a2 [folded f1], of "Suc 0"] by (simp add: maxRetries_def)
  have s3: "generateResponse_loop rt p (Suc (Suc 0)) ?t2 =
      generateResponse_loop rt p (Suc (Suc (Suc 0))) ?t3"
    using loop_fail [OF _ a3 [folded f2], of "Suc (Suc 0)"] by (simp add: maxRetries_def)
  have s4: "generateResponse_loop rt p (Suc (Suc (Suc 0))) ?t3 =
      generateResponse_loop rt p (Suc (Suc (Suc (Suc 0)))) ?t4"
    using loop_fail [OF _ a4 [folded f3], of "Suc (Suc (Suc 0))"] by (simp add: maxRetries_def)
  have s5: "generateResponse_loop rt p (Suc (Suc (Suc (Suc 0)))) ?t4 =
      (Inl (Error ''Max retries reached. Failed to generate content.''),
       ?t4 @ [Fetch apiUrlBase p, ConsoleError ''Attempt 5 failed:'' e5])"
    using loop_fail [OF _ a5 [folded f4], of "Suc (Suc (Suc (Suc 0)))"] by (simp add: maxRetries_def)
  show ?thesis
    unfolding s1 s2 s3 s4 s5 by simp
qed

text \<open>The loop only adds events, and its first one is the request.\<close>

lemma loop_first_event:
  "retryCount < maxRetries \<Longrightarrow>
   \<exists>rest. snd (generateResponse_loop rt p retryCount evs) = evs @ Fetch apiUrlBase p # rest"
proof (induction rt p retryCount evs rule: generateResponse_loop.induct)
  case (1 rt p retryCount evs)
  show ?case
  proof (cases "attempt rt (fetches evs) p")
    case (Inr r)
    with "1.prems" show ?thesis by (simp add: loop_ok)
  next
    case (Inl error)
    show ?thesis
    proof (cases "retryCount + 1 \<ge> maxRetries")
      case True
      with Inl "1.prems" show ?thesis by (simp add: loop_fail)
    next
      case False
      then have "retryCount + 1 < maxRetries" by simp
      from "1.IH" [OF "1.prems" Inl refl False this]
      obtain rest where
        "snd (generateResponse_loop rt p (retryCount + 1)
               ((evs @ [Fetch apiUrlBase p,
                        ConsoleError (''Attempt '' @ decimal (retryCount + 1) @ '' failed:'') error])
                 @ [SetTimeout (2 ^ (retryCount + 1) * 1000)]))
         = ((evs @ [Fetch apiUrlBase p,
                    ConsoleError (''Attempt '' @ decimal (retryCount + 1) @ '' failed:'') error])
             @ [SetTimeout (2 ^ (retryCount + 1) * 1000)]) @ Fetch apiUrlBase p # rest"
        by blast
      with Inl "1.prems" False show ?thesis by (simp add: loop_fail)
    qed
  qed
qed

section \<open>The claims\<close>

text \<open>
  C1. The claim: with both \<open>groundingEnabled\<close> and \<open>structuredOutputEnabled\<close> true the
  payload holds the structured-output directive and does not hold the web-search tool.
  The script attaches both: whatever the two strings and the runtime, the first thing
  \<open>generateResponse\<close> does is to send a body whose \<open>generationConfig\<close> is the directive
  and whose \<open>tools\<close> is the list with the search tool. The note in the structured
  branch (structured generation overrides search grounding) is not carried out there.
\<close>

theorem both_flags_payload_keeps_search_tool:
  "\<exists>r rest.
     generateResponse rt userQuery systemPrompt True True evs =
       (r, evs @ Fetch apiUrlBase (make_payload userQuery systemPrompt True True) # rest)
     \<and> tools (make_payload userQuery systemPrompt True True) = Some [Google_search]
     \<and> generationConfig (make_payload userQuery systemPrompt True True) =
         Some \<lparr> responseMimeType = ''application/json'', responseSchema = structuredSchema \<rparr>"
proof -
  have "0 < maxRetries" by (simp add: maxRetries_def)
  from loop_first_event [OF this]
  obtain rest where
    "snd (generateResponse rt userQuery systemPrompt True True evs) =
       evs @ Fetch apiUrlBase (make_payload userQuery systemPrompt True True) # rest"
    unfolding generateResponse_def by blast
  then have "generateResponse rt userQuery systemPrompt True True evs =
      (fst (generateResponse rt userQuery systemPrompt True True evs),
       evs @ Fetch apiUrlBase (make_payload userQuery systemPrompt True True) # rest)"
    by (metis prod.collapse)
  then show ?thesis by (auto simp: make_payload_def)
qed

theorem both_flags_payload_keeps_search_tool_witness:
  "fst (generateResponse offline ''What is 2+2?'' [] True True []) =
     Inl (Error ''Max retries reached. Failed to generate content.'')
   \<and> hd (snd (generateResponse offline ''What is 2+2?'' [] True True [])) =
       Fetch apiUrlBase
         \<lparr> contents = [Content [Part ''What is 2+2?'']],
           systemInstruction = Content [Part []],
           tools = Some [Google_search],
           generationConfig =
             Some \<lparr> responseMimeType = ''application/json'', responseSchema = structuredSchema \<rparr> \<rparr>"
proof -
  have a: "attempt offline n p = Inl (TypeError ''Failed to fetch'')" for n p
    by (simp add: attempt_def offline_def)
  from both_flags_payload_keeps_search_tool [of offline "''What is 2+2?''" "[]" "[]"]
  obtain r rest where
    "generateResponse offline ''What is 2+2?'' [] True True [] =
       (r, Fetch apiUrlBase (make_payload ''What is 2+2?'' [] True True) # rest)"
    by auto
  moreover have "fst (generateResponse offline ''What is 2+2?'' [] True True []) =
      Inl (Error ''Max retries reached. Failed to generate content.'')"
    unfolding generateResponse_def by (simp add: loop_exhausted [OF a a a a a])
  ultimately show ?thesis by (simp add: make_payload_def)
qed

text \<open>
  C2. When every attempt fails, \<open>generateResponse\<close> calls \<open>fetch\<close> exactly five
  times, waits 2000, 4000, 8000 and 16000 milliseconds before the second to the fifth
  call, logs each failure, and then raises the error with the message
  \<open>Max retries reached. Failed to generate content.\<close> without a sixth call.
\<close>

theorem five_attempts_then_exhausted:
  assumes "\<forall>n. \<exists>e. attempt rt n (make_payload userQuery systemPrompt isGrounded isStructured) = Inl e"
  shows "\<exists>e1 e2 e3 e4 e5.
    attempt rt (fetches evs) (make_payload userQuery systemPrompt isGrounded isStructured) = Inl e1
    \<and> attempt rt (fetches evs + 1) (make_payload userQuery systemPrompt isGrounded isStructured) = Inl e2
    \<and> attempt rt (fetches evs + 2) (make_payload userQuery systemPrompt isGrounded isStructured) = Inl e3
    \<and> attempt rt (fetches evs + 3) (make_payload userQuery systemPrompt isGrounded isStructured) = Inl e4
    \<and> attempt rt (fetches evs + 4) (make_payload userQuery systemPrompt isGrounded isStructured) = Inl e5
    \<and> generateResponse rt userQuery systemPrompt isGrounded isStructured evs =
       (Inl (Error ''Max retries reached. Failed to generate content.''),
        evs @ [Fetch apiUrlBase (make_payload userQuery systemPrompt isGrounded isStructured),
               ConsoleError ''Attempt 1 failed:'' e1, SetTimeout 2000,
               Fetch apiUrlBase (make_payload userQuery systemPrompt isGrounded isStructured),
               ConsoleError ''Attempt 2 failed:'' e2, SetTimeout 4000,
               Fetch apiUrlBase (make_payload userQuery systemPrompt isGrounded isStructured),
               ConsoleError ''Attempt 3 failed:'' e3, SetTimeout 8000,
               Fetch apiUrlBase (make_payload userQuery systemPrompt isGrounded isStructured),
               ConsoleError ''Attempt 4 failed:'' e4, SetTimeout 16000,
               Fetch apiUrlBase (make_payload userQuery systemPrompt isGrounded isStructured),
               ConsoleError ''Attempt 5 failed:'' e5])
    \<and> fetches (snd (generateResponse rt userQuery systemPrompt isGrounded isStructured evs)) =
       fetches evs + 5"
proof -
  let ?p = "make_payload userQuery systemPrompt isGrounded isStructured"
  from assms obtain e1 e2 e3 e4 e5 where
    a: "attempt rt (fetches evs) ?p = Inl e1" "attempt rt (fetches evs + 1) ?p = Inl e2"
       "attempt rt (fetches evs + 2) ?p = Inl e3" "attempt rt (fetches evs + 3) ?p = Inl e4"
       "attempt rt (fetches evs + 4) ?p = Inl e5"
    by metis
  have run: "generateResponse rt userQuery systemPrompt isGrounded isStructured evs =
       (Inl (Error ''Max retries reached. Failed to generate content.''),
        evs @ [Fetch apiUrlBase ?p, ConsoleError ''Attempt 1 failed:'' e1, SetTimeout 2000,
               Fetch apiUrlBase ?p, ConsoleError ''Attempt 2 failed:'' e2, SetTimeout 4000,
               Fetch apiUrlBase ?p, ConsoleError ''Attempt 3 failed:'' e3, SetTimeout 8000,
               Fetch apiUrlBase ?p, ConsoleError ''Attempt 4 failed:'' e4, SetTimeout 16000,
               Fetch apiUrlBase ?p, ConsoleError ''Attempt 5 failed:'' e5])"
    unfolding generateResponse_def by (rule loop_exhausted [OF a])
  have "fetches (snd (generateResponse rt userQuery systemPrompt isGrounded isStructured evs)) =
       fetches evs + 5"
    unfolding run by simp
  with a run show ?thesis by blast
qed

theorem five_attempts_then_exhausted_witness:
  "generateResponse offline ''What is 2+2?'' [] False False [] =
     (Inl (Error ''Max retries reached. Failed to generate content.''),
      [Fetch apiUrlBase (make_payload ''What is 2+2?'' [] False False),
       ConsoleError ''Attempt 1 failed:'' (TypeError ''Failed to fetch''), SetTimeout 2000,
       Fetch apiUrlBase (make_payload ''What is 2+2?'' [] False False),
       ConsoleError ''Attempt 2 failed:'' (TypeError ''Failed to fetch''), SetTimeout 4000,
       Fetch apiUrlBase (make_payload ''What is 2+2?'' [] False False),
       ConsoleError ''Attempt 3 failed:'' (TypeError ''Failed to fetch''), SetTimeout 8000,
       Fetch apiUrlBase (make_payload ''What is 2+2?'' [] False False),
       ConsoleError ''Attempt 4 failed:'' (TypeError ''Failed to fetch''), SetTimeout 16000,
       Fetch apiUrlBase (make_payload ''What is 2+2?'' [] False False),
       ConsoleError ''Attempt 5 failed:'' (TypeError ''Failed to fetch'')])
   \<and> fetches (snd (generateResponse offline ''What is 2+2?'' [] False False [])) = 5"
proof -
  have a: "attempt offline n p = Inl (TypeError ''Failed to fetch'')" for n p
    by (simp add: attempt_def offline_def)
  then have "\<forall>n. \<exists>e. attempt offline n (make_payload ''What is 2+2?'' [] False False) = Inl e"
    by simp
  from five_attempts_then_exhausted [OF this, of "[]"] show ?thesis
    by (simp add: a)
qed

text \<open>
  C3. The claim: the terminal error wraps the last underlying cause. The script raises
  \<open>new Error("Max retries reached. Failed to generate content.")\<close>, an error with that
  message and no cause; the cause of the fifth failure goes to \<open>console.error\<close> only.
  \<open>wraps\<close> is the claim's relation: the error has the cause as its \<open>cause\<close>. Without
  a network and against a provider that answers 503, the last causes differ and the
  terminal errors are the same.
\<close>

theorem terminal_error_drops_the_cause:
  "fst (generateResponse offline ''What is 2+2?'' [] False False []) =
     Inl (JsError ''Error'' ''Max retries reached. Failed to generate content.'' None)
   \<and> last (snd (generateResponse offline ''What is 2+2?'' [] False False [])) =
       ConsoleError ''Attempt 5 failed:'' (JsError ''TypeError'' ''Failed to fetch'' None)
   \<and> \<not> wraps (JsError ''Error'' ''Max retries reached. Failed to generate content.'' None)
              (JsError ''TypeError'' ''Failed to fetch'' None)
   \<and> fst (generateResponse unavailable ''What is 2+2?'' [] False False []) =
       Inl (JsError ''Error'' ''Max retries reached. Failed to generate content.'' None)
   \<and> last (snd (generateResponse unavailable ''What is 2+2?'' [] False False [])) =
       ConsoleError ''Attempt 5 failed:''
         (JsError ''Error'' ''API Error (503): The model is overloaded.'' None)"
proof -
  have a: "attempt offline n p = Inl (TypeError ''Failed to fetch'')" for n p
    by (simp add: attempt_def offline_def)
  have b: "attempt unavailable n p = Inl (Error ''API Error (503): The model is overloaded.'')" for n p
    by (simp add: attempt_def unavailable_def ok_def http_error_def opt_def)
  show ?thesis
    unfolding generateResponse_def
    by (simp add: loop_exhausted [OF a a a a a] loop_exhausted [OF b b b b b]
        Error_def TypeError_def wraps_def)
qed

text \<open>
  C3, as the script has it: when every attempt fails, the error raised is the fixed
  \<open>Error\<close> with no cause, whatever the causes were, and the cause of the fifth failure
  is the last thing logged.
\<close>

theorem terminal_error_is_fixed:
  assumes "\<forall>n. \<exists>e. attempt rt n (make_payload userQuery systemPrompt isGrounded isStructured) = Inl e"
  shows "fst (generateResponse rt userQuery systemPrompt isGrounded isStructured evs) =
      Inl (JsError ''Error'' ''Max retries reached. Failed to generate content.'' None)
    \<and> (\<exists>e. attempt rt (fetches evs + 4) (make_payload userQuery systemPrompt isGrounded isStructured) = Inl e
           \<and> last (snd (generateResponse rt userQuery systemPrompt isGrounded isStructured evs)) =
              ConsoleError ''Attempt 5 failed:'' e)"
proof -
  let ?p = "make_payload userQuery systemPrompt isGrounded isStructured"
  from assms obtain e1 e2 e3 e4 e5 where
    a: "attempt rt (fetches evs) ?p = Inl e1" "attempt rt (fetches evs + 1) ?p = Inl e2"
       "attempt rt (fetches evs + 2) ?p = Inl e3" "attempt rt (fetches evs + 3) ?p = Inl e4"
       "attempt rt (fetches evs + 4) ?p = Inl e5"
    by metis
  show ?thesis
    unfolding generateResponse_def loop_exhausted [OF a]
    using a(5) by (simp add: Error_def)
qed

theorem terminal_error_is_fixed_witness:
  "fst (generateResponse unavailable ''What is 2+2?'' [] False False []) =
      Inl (JsError ''Error'' ''Max retries reached. Failed to generate content.'' None)
   \<and> last (snd (generateResponse unavailable ''What is 2+2?'' [] False False [])) =
       ConsoleError ''Attempt 5 failed:''
         (JsError ''Error'' ''API Error (503): The model is overloaded.'' None)"
proof -
  have b: "attempt unavailable n p = Inl (Error ''API Error (503): The model is overloaded.'')" for n p
    by (simp add: attempt_def unavailable_def ok_def http_error_def opt_def)
  then have "\<forall>n. \<exists>e. attempt unavailable n (make_payload ''What is 2+2?'' [] False False) = Inl e"
    by simp
  from terminal_error_is_fixed [OF this, of "[]"] show ?thesis
    by (simp add: b Error_def)
qed

section \<open>Properties of \<open>JSON.parse\<close> and \<open>displayResult\<close>\<close>

text \<open>\<open>JSON.parse\<close> never returns \<open>undefined\<close>.\<close>

lemma shift_defined: "shift t fs = Some (p', fs') \<Longrightarrow> p' \<noteq> PAfter JUndefined"
  by (cases t) auto

lemma parse_step_defined: "parse_step p fs t = Some (p', fs') \<Longrightarrow> p' \<noteq> PAfter JUndefined"
  by (induction p fs t rule: parse_step.induct)
     (auto split: if_splits token.splits dest: shift_defined)

lemma parse_defined: "parse p fs ts = Some v \<Longrightarrow> p \<noteq> PAfter JUndefined \<Longrightarrow> v \<noteq> JUndefined"
proof (induction ts arbitrary: p fs)
  case Nil
  then show ?case by (cases p; cases fs) auto
next
  case (Cons t ts)
  then show ?case
    by (auto split: option.splits dest: parse_step_defined)
qed

lemma JSON_parse_defined: "JSON_parse s \<noteq> Some JUndefined"
  using parse_defined [of PValue "[]" _ JUndefined]
  by (auto simp: JSON_parse_def split: option.splits)

lemma get_Inr: "get v k = Inr x \<Longrightarrow> x = own v k"
  by (cases v) auto

text \<open>Rendering the sources leaves the text shown and the two variables alone.\<close>

lemma show_sources_frame:
  "currentResponse (snd (show_sources rt sources st)) = currentResponse st"
  "currentSystemPrompt (snd (show_sources rt sources st)) = currentSystemPrompt st"
  "responseContainer_innerHTML (snd (show_sources rt sources st)) = responseContainer_innerHTML st"
  by (simp_all add: show_sources_def split: prod.splits)

lemma show_sources_none: "show_sources rt [] st = (None, st)"
  by (simp add: show_sources_def)

text \<open>The two ways through the structured branch.\<close>

lemma structured_shown:
  assumes "structured_try rt text = Some (final_summary, shown)"
  shows "currentResponse (snd (displayResult rt text sources True st)) = final_summary"
    and "responseContainer_innerHTML (snd (displayResult rt text sources True st)) =
           ''<pre class=\"code-block\">'' @ shown @ ''</pre>''"
    and "fst (displayResult rt text [] True st) = None"
  using assms by (simp_all add: displayResult_def show_text_def show_sources_frame show_sources_none)

lemma structured_fallback:
  assumes "structured_try rt text = None" and "ToString rt text = Inr raw"
  shows "currentResponse (snd (displayResult rt text sources True st)) = text"
    and "responseContainer_innerHTML (snd (displayResult rt text sources True st)) =
           ''<p class=\"text-red-600 font-bold\">Error parsing JSON output. Raw Text:</p><p class=\"whitespace-pre-wrap\">''
             @ raw @ ''</p>''"
    and "fst (displayResult rt text [] True st) = None"
  using assms by (simp_all add: displayResult_def show_text_def show_sources_frame show_sources_none)

lemmas JSON_eval = JSON_parse_def between_def isDigit_def unescape_def hexval_def code_unit_def byte_def

text \<open>
  C4. The claim: when the text of a structured result is not JSON, the resolver fails,
  the raw text is shown and the current response is left unset. \<open>displayResult\<close>
  assigns \<open>currentResponse = text\<close> before it looks at the mode and catches the parse
  error itself: on the text \<open>oops\<close> it returns normally, shows the raw text and leaves
  \<open>currentResponse\<close> at \<open>oops\<close>, where it was the empty string before.
\<close>

theorem unparsable_text_becomes_current_response:
  "JSON_parse ''oops'' = None
   \<and> currentResponse blank = JStr []
   \<and> fst (displayResult offline (JStr ''oops'') [] True blank) = None
   \<and> currentResponse (snd (displayResult offline (JStr ''oops'') [] True blank)) = JStr ''oops''
   \<and> responseContainer_innerHTML (snd (displayResult offline (JStr ''oops'') [] True blank)) =
       ''<p class=\"text-red-600 font-bold\">Error parsing JSON output. Raw Text:</p><p class=\"whitespace-pre-wrap\">oops</p>''"
proof -
  have p: "JSON_parse ''oops'' = None" by (simp add: JSON_eval)
  then have s: "structured_try offline (JStr ''oops'') = None"
    by (simp add: structured_try_def)
  show ?thesis
    using p structured_fallback [OF s, of "''oops''"] by (simp add: blank_def)
qed

text \<open>
  C4, as the script has it: when the text of a structured result (its string form)
  is not JSON, \<open>displayResult\<close> shows the parse-error notice with the raw text, sets the
  current response to the text it was given, and raises nothing of its own.
\<close>

theorem unparsable_text_is_shown_raw:
  assumes "ToString rt text = Inr raw" and "JSON_parse raw = None"
  shows "currentResponse (snd (displayResult rt text sources True st)) = text
    \<and> responseContainer_innerHTML (snd (displayResult rt text sources True st)) =
        ''<p class=\"text-red-600 font-bold\">Error parsing JSON output. Raw Text:</p><p class=\"whitespace-pre-wrap\">''
          @ raw @ ''</p>''
    \<and> fst (displayResult rt text [] True st) = None"
proof -
  from assms have "structured_try rt text = None"
    by (simp add: structured_try_def)
  from structured_fallback [OF this assms(1)] show ?thesis by simp
qed

theorem unparsable_text_is_shown_raw_witness:
  "currentResponse (snd (displayResult offline (JStr ''oops'') [] True blank)) = JStr ''oops''
   \<and> responseContainer_innerHTML (snd (displayResult offline (JStr ''oops'') [] True blank)) =
       ''<p class=\"text-red-600 font-bold\">Error parsing JSON output. Raw Text:</p><p class=\"whitespace-pre-wrap\">oops</p>''
   \<and> fst (displayResult offline (JStr ''oops'') [] True blank) = None"
proof -
  have "ToString offline (JStr ''oops'') = Inr ''oops''" by simp
  moreover have "JSON_parse ''oops'' = None" by (simp add: JSON_eval)
  ultimately show ?thesis
    using unparsable_text_is_shown_raw [of offline "JStr ''oops''" "''oops''" "[]" blank] by simp
qed

text \<open>
  C5. The claim: whenever the text of a structured result parses as JSON, the text shown
  and the current response are the document's \<open>final_summary\<close>. The text \<open>null\<close>
  parses, to \<open>null\<close>; reading \<open>final_summary\<close> of it raises inside the \<open>try\<close>, so
  the parse-error notice is shown and the current response stays the raw text.
\<close>

theorem null_document_is_a_parse_error:
  "JSON_parse ''null'' = Some JNull
   \<and> currentResponse (snd (displayResult offline (JStr ''null'') [] True blank)) = JStr ''null''
   \<and> responseContainer_innerHTML (snd (displayResult offline (JStr ''null'') [] True blank)) =
       ''<p class=\"text-red-600 font-bold\">Error parsing JSON output. Raw Text:</p><p class=\"whitespace-pre-wrap\">null</p>''"
proof -
  have p: "JSON_parse ''null'' = Some JNull" by (simp add: JSON_eval)
  then have s: "structured_try offline (JStr ''null'') = None"
    by (simp add: structured_try_def)
  show ?thesis
    using p structured_fallback [OF s, of "''null''"] by simp
qed

text \<open>
  C5, as the script has it: when the text parses to a value other than \<open>null\<close> and
  that value's \<open>final_summary\<close> (\<open>undefined\<close> when it has none) has a string form,
  the string form is shown in the code block and the current response becomes the value
  of \<open>final_summary\<close> itself, not the document.
\<close>

theorem final_summary_is_shown_and_becomes_current:
  assumes "ToString rt text = Inr raw" and "JSON_parse raw = Some jsonObject"
    and "jsonObject \<noteq> JNull"
    and "ToString rt (own jsonObject ''final_summary'') = Inr shown"
  shows "responseContainer_innerHTML (snd (displayResult rt text sources True st)) =
        ''<pre class=\"code-block\">'' @ shown @ ''</pre>''
    \<and> currentResponse (snd (displayResult rt text sources True st)) = own jsonObject ''final_summary''
    \<and> fst (displayResult rt text [] True st) = None"
proof -
  from assms(2) have "jsonObject \<noteq> JUndefined"
    using JSON_parse_defined [of raw] by auto
  with assms(3) have "get jsonObject ''final_summary'' = Inr (own jsonObject ''final_summary'')"
    by (cases jsonObject) simp_all
  with assms have "structured_try rt text = Some (own jsonObject ''final_summary'', shown)"
    by (simp add: structured_try_def)
  from structured_shown [OF this] show ?thesis by simp
qed

theorem final_summary_is_shown_and_becomes_current_witness:
  "responseContainer_innerHTML (snd (displayResult offline
       (JStr ''{\"reasoning_steps\":[\"a\",\"b\"],\"final_summary\":\"Answer: 4\",\"confidence_score\":95}'')
       [] True blank)) = ''<pre class=\"code-block\">Answer: 4</pre>''
   \<and> currentResponse (snd (displayResult offline
       (JStr ''{\"reasoning_steps\":[\"a\",\"b\"],\"final_summary\":\"Answer: 4\",\"confidence_score\":95}'')
       [] True blank)) = JStr ''Answer: 4''
   \<and> fst (displayResult offline
       (JStr ''{\"reasoning_steps\":[\"a\",\"b\"],\"final_summary\":\"Answer: 4\",\"confidence_score\":95}'')
       [] True blank) = None"
proof -
  let ?raw = "''{\"reasoning_steps\":[\"a\",\"b\"],\"final_summary\":\"Answer: 4\",\"confidence_score\":95}''"
  let ?doc = "JObj [(''reasoning_steps'', JArr [JStr ''a'', JStr ''b'']),
                    (''final_summary'', JStr ''Answer: 4''), (''confidence_score'', JNum ''95'')]"
  have p: "JSON_parse ?raw = Some ?doc" by (simp add: JSON_eval)
  have "ToString offline (JStr ?raw) = Inr ?raw" by simp
  from final_summary_is_shown_and_becomes_current [OF this p, of "''Answer: 4''" "[]" blank]
  show ?thesis by simp
qed

text \<open>
  C8. The claim: in structured mode a document whose shape does not match the schema,
  such as one without \<open>final_summary\<close>, is an error like a text that is not JSON. The
  script validates nothing: the document \<open>{}\<close> is accepted, the word \<open>undefined\<close> is
  shown in the code block and the current response becomes \<open>undefined\<close>.
\<close>

theorem missing_final_summary_is_no_error:
  "JSON_parse ''{}'' = Some (JObj [])
   \<and> fst (displayResult offline (JStr ''{}'') [] True blank) = None
   \<and> responseContainer_innerHTML (snd (displayResult offline (JStr ''{}'') [] True blank)) =
       ''<pre class=\"code-block\">undefined</pre>''
   \<and> currentResponse (snd (displayResult offline (JStr ''{}'') [] True blank)) = JUndefined"
proof -
  have p: "JSON_parse ''{}'' = Some (JObj [])" by (simp add: JSON_eval)
  then have s: "structured_try offline (JStr ''{}'') = Some (JUndefined, ''undefined'')"
    by (simp add: structured_try_def)
  show ?thesis
    using p structured_shown [OF s] by simp
qed

text \<open>
  C8, as the script has it. For a text with a string form, the structured branch takes
  the error path (the parse-error notice with the raw text, the current response left at
  the text) exactly in three cases: the text is not JSON, it is the document \<open>null\<close>,
  or the \<open>final_summary\<close> of the document has no string form. Every other document is
  accepted whatever its shape: the string form of its \<open>final_summary\<close> is shown and
  \<open>final_summary\<close> becomes the current response. In particular a document without
  \<open>final_summary\<close> is not an error: \<open>undefined\<close> is shown and becomes the current
  response.
\<close>

theorem shape_is_not_validated:
  assumes "ToString rt text = Inr raw"
  shows "(JSON_parse raw = None \<or> JSON_parse raw = Some JNull
          \<or> (\<exists>jsonObject e. JSON_parse raw = Some jsonObject
                \<and> ToString rt (own jsonObject ''final_summary'') = Inl e)
        \<longrightarrow> fst (displayResult rt text [] True st) = None
          \<and> responseContainer_innerHTML (snd (displayResult rt text sources True st)) =
              ''<p class=\"text-red-600 font-bold\">Error parsing JSON output. Raw Text:</p><p class=\"whitespace-pre-wrap\">''
                @ raw @ ''</p>''
          \<and> currentResponse (snd (displayResult rt text sources True st)) = text)
    \<and> (\<forall>jsonObject shown.
          JSON_parse raw = Some jsonObject \<and> jsonObject \<noteq> JNull
          \<and> ToString rt (own jsonObject ''final_summary'') = Inr shown
        \<longrightarrow> fst (displayResult rt text [] True st) = None
          \<and> responseContainer_innerHTML (snd (displayResult rt text sources True st)) =
              ''<pre class=\"code-block\">'' @ shown @ ''</pre>''
          \<and> currentResponse (snd (displayResult rt text sources True st)) =
              own jsonObject ''final_summary'')
    \<and> (\<forall>jsonObject.
          JSON_parse raw = Some jsonObject \<and> jsonObject \<noteq> JNull
          \<and> own jsonObject ''final_summary'' = JUndefined
        \<longrightarrow> fst (displayResult rt text [] True st) = None
          \<and> responseContainer_innerHTML (snd (displayResult rt text sources True st)) =
              ''<pre class=\"code-block\">undefined</pre>''
          \<and> currentResponse (snd (displayResult rt text sources True st)) = JUndefined)"
proof -
  have read: "get jsonObject ''final_summary'' = Inr (own jsonObject ''final_summary'')"
    if "JSON_parse raw = Some jsonObject" and "jsonObject \<noteq> JNull" for jsonObject
  proof -
    from that(1) have "jsonObject \<noteq> JUndefined"
      using JSON_parse_defined [of raw] by auto
    with that(2) show ?thesis by (cases jsonObject) simp_all
  qed
  have rejected: "structured_try rt text = None"
    if "JSON_parse raw = None \<or> JSON_parse raw = Some JNull
        \<or> (\<exists>jsonObject e. JSON_parse raw = Some jsonObject
              \<and> ToString rt (own jsonObject ''final_summary'') = Inl e)"
  proof -
    from that consider
      (not_json) "JSON_parse raw = None"
      | (null_document) "JSON_parse raw = Some JNull"
      | (unconvertible) jsonObject e where "JSON_parse raw = Some jsonObject"
          and "ToString rt (own jsonObject ''final_summary'') = Inl e"
      by (elim disjE exE conjE)
    then show ?thesis
    proof cases
      case not_json
      with assms show ?thesis by (simp add: structured_try_def)
    next
      case null_document
      with assms show ?thesis by (simp add: structured_try_def)
    next
      case unconvertible
      then have "jsonObject \<noteq> JNull" by auto
      from read [OF unconvertible(1) this] unconvertible assms show ?thesis
        by (simp add: structured_try_def)
    qed
  qed
  have accepted: "structured_try rt text = Some (own jsonObject ''final_summary'', shown)"
    if "JSON_parse raw = Some jsonObject" and "jsonObject \<noteq> JNull"
      and "ToString rt (own jsonObject ''final_summary'') = Inr shown" for jsonObject shown
    using read [OF that(1,2)] that assms by (simp add: structured_try_def)
  have absent: "structured_try rt text = Some (JUndefined, ''undefined'')"
    if "JSON_parse raw = Some jsonObject" and "jsonObject \<noteq> JNull"
      and "own jsonObject ''final_summary'' = JUndefined" for jsonObject
    using accepted [OF that(1,2), of "''undefined''"] that(3) by simp
  have error_path:
    "JSON_parse raw = None \<or> JSON_parse raw = Some JNull
       \<or> (\<exists>jsonObject e. JSON_parse raw = Some jsonObject
             \<and> ToString rt (own jsonObject ''final_summary'') = Inl e)
     \<longrightarrow> fst (displayResult rt text [] True st) = None
       \<and> responseContainer_innerHTML (snd (displayResult rt text sources True st)) =
           ''<p class=\"text-red-600 font-bold\">Error parsing JSON output. Raw Text:</p><p class=\"whitespace-pre-wrap\">''
             @ raw @ ''</p>''
       \<and> currentResponse (snd (displayResult rt text sources True st)) = text"
  proof
    assume "JSON_parse raw = None \<or> JSON_parse raw = Some JNull
       \<or> (\<exists>jsonObject e. JSON_parse raw = Some jsonObject
             \<and> ToString rt (own jsonObject ''final_summary'') = Inl e)"
    then have "structured_try rt text = None" by (rule rejected)
    from structured_fallback [OF this assms] show
      "fst (displayResult rt text [] True st) = None
       \<and> responseContainer_innerHTML (snd (displayResult rt text sources True st)) =
           ''<p class=\"text-red-600 font-bold\">Error parsing JSON output. Raw Text:</p><p class=\"whitespace-pre-wrap\">''
             @ raw @ ''</p>''
       \<and> currentResponse (snd (displayResult rt text sources True st)) = text"
      by simp
  qed
  have shown_path:
    "JSON_parse raw = Some jsonObject \<and> jsonObject \<noteq> JNull
       \<and> ToString rt (own jsonObject ''final_summary'') = Inr shown
     \<longrightarrow> fst (displayResult rt text [] True st) = None
       \<and> responseContainer_innerHTML (snd (displayResult rt text sources True st)) =
           ''<pre class=\"code-block\">'' @ shown @ ''</pre>''
       \<and> currentResponse (snd (displayResult rt text sources True st)) =
           own jsonObject ''final_summary''" for jsonObject shown
  proof
    assume "JSON_parse raw = Some jsonObject \<and> jsonObject \<noteq> JNull
       \<and> ToString rt (own jsonObject ''final_summary'') = Inr shown"
    then have "structured_try rt text = Some (own jsonObject ''final_summary'', shown)"
      using accepted by blast
    from structured_shown [OF this] show
      "fst (displayResult rt text [] True st) = None
       \<and> responseContainer_innerHTML (snd (displayResult rt text sources True st)) =
           ''<pre class=\"code-block\">'' @ shown @ ''</pre>''
       \<and> currentResponse (snd (displayResult rt text sources True st)) =
           own jsonObject ''final_summary''"
      by simp
  qed
  have absent_path:
    "JSON_parse raw = Some jsonObject \<and> jsonObject \<noteq> JNull
       \<and> own jsonObject ''final_summary'' = JUndefined
     \<longrightarrow> fst (displayResult rt text [] True st) = None
       \<and> responseContainer_innerHTML (snd (displayResult rt text sources True st)) =
           ''<pre class=\"code-block\">undefined</pre>''
       \<and> currentResponse (snd (displayResult rt text sources True st)) = JUndefined" for jsonObject
  proof
    assume "JSON_parse raw = Some jsonObject \<and> jsonObject \<noteq> JNull
       \<and> own jsonObject ''final_summary'' = JUndefined"
    then have "structured_try rt text = Some (JUndefined, ''undefined'')"
      using absent by blast
    from structured_shown [OF this] show
      "fst (displayResult rt text [] True st) = None
       \<and> responseContainer_innerHTML (snd (displayResult rt text sources True st)) =
           ''<pre class=\"code-block\">undefined</pre>''
       \<and> currentResponse (snd (displayResult rt text sources True st)) = JUndefined"
      by simp
  qed
  from error_path shown_path absent_path show ?thesis
    by (intro conjI allI)
qed

theorem shape_is_not_validated_witness:
  "fst (displayResult offline (JStr ''{\"answer\":\"4\"}'') [] True blank) = None
   \<and> responseContainer_innerHTML (snd (displayResult offline (JStr ''{\"answer\":\"4\"}'') [] True blank)) =
       ''<pre class=\"code-block\">undefined</pre>''
   \<and> currentResponse (snd (displayResult offline (JStr ''{\"answer\":\"4\"}'') [] True blank)) = JUndefined
   \<and> responseContainer_innerHTML (snd (displayResult offline (JStr ''oops'') [] True blank)) =
       ''<p class=\"text-red-600 font-bold\">Error parsing JSON output. Raw Text:</p><p class=\"whitespace-pre-wrap\">oops</p>''
   \<and> currentResponse (snd (displayResult offline (JStr ''oops'') [] True blank)) = JStr ''oops''
   \<and> responseContainer_innerHTML (snd (displayResult offline (JStr ''null'') [] True blank)) =
       ''<p class=\"text-red-600 font-bold\">Error parsing JSON output. Raw Text:</p><p class=\"whitespace-pre-wrap\">null</p>''
   \<and> currentResponse (snd (displayResult offline (JStr ''null'') [] True blank)) = JStr ''null''
   \<and> responseContainer_innerHTML
         (snd (displayResult offline (JStr ''{\"final_summary\":{\"toString\":1}}'') [] True blank)) =
       ''<p class=\"text-red-600 font-bold\">Error parsing JSON output. Raw Text:</p><p class=\"whitespace-pre-wrap\">{\"final_summary\":{\"toString\":1}}</p>''
   \<and> currentResponse
         (snd (displayResult offline (JStr ''{\"final_summary\":{\"toString\":1}}'') [] True blank)) =
       JStr ''{\"final_summary\":{\"toString\":1}}''
   \<and> responseContainer_innerHTML
         (snd (displayResult offline (JStr ''{\"final_summary\":[\"a\",null,true]}'') [] True blank)) =
       ''<pre class=\"code-block\">a,,true</pre>''
   \<and> currentResponse
         (snd (displayResult offline (JStr ''{\"final_summary\":[\"a\",null,true]}'') [] True blank)) =
       JArr [JStr ''a'', JNull, JBool True]"
proof -
  have p1: "JSON_parse ''{\"answer\":\"4\"}'' = Some (JObj [(''answer'', JStr ''4'')])"
    by (simp add: JSON_eval)
  have p2: "JSON_parse ''oops'' = None" by (simp add: JSON_eval)
  have p3: "JSON_parse ''null'' = Some JNull" by (simp add: JSON_eval)
  have p4: "JSON_parse ''{\"final_summary\":{\"toString\":1}}'' =
      Some (JObj [(''final_summary'', JObj [(''toString'', JNum ''1'')])])"
    by (simp add: JSON_eval)
  have p5: "JSON_parse ''{\"final_summary\":[\"a\",null,true]}'' =
      Some (JObj [(''final_summary'', JArr [JStr ''a'', JNull, JBool True])])"
    by (simp add: JSON_eval)
  have s: "ToString offline (JStr raw) = Inr raw" for raw by simp
  from shape_is_not_validated [OF s, of "''{\"answer\":\"4\"}''" blank "[]"] p1
  have c1: "fst (displayResult offline (JStr ''{\"answer\":\"4\"}'') [] True blank) = None
     \<and> responseContainer_innerHTML (snd (displayResult offline (JStr ''{\"answer\":\"4\"}'') [] True blank)) =
         ''<pre class=\"code-block\">undefined</pre>''
     \<and> currentResponse (snd (displayResult offline (JStr ''{\"answer\":\"4\"}'') [] True blank)) = JUndefined"
    by simp
  from shape_is_not_validated [OF s, of "''oops''" blank "[]"] p2
  have c2: "responseContainer_innerHTML (snd (displayResult offline (JStr ''oops'') [] True blank)) =
       ''<p class=\"text-red-600 font-bold\">Error parsing JSON output. Raw Text:</p><p class=\"whitespace-pre-wrap\">oops</p>''
     \<and> currentResponse (snd (displayResult offline (JStr ''oops'') [] True blank)) = JStr ''oops''"
    by simp
  from shape_is_not_validated [OF s, of "''null''" blank "[]"] p3
  have c3: "responseContainer_innerHTML (snd (displayResult offline (JStr ''null'') [] True blank)) =
       ''<p class=\"text-red-600 font-bold\">Error parsing JSON output. Raw Text:</p><p class=\"whitespace-pre-wrap\">null</p>''
     \<and> currentResponse (snd (displayResult offline (JStr ''null'') [] True blank)) = JStr ''null''"
    by simp
  from shape_is_not_validated [OF s, of "''{\"final_summary\":{\"toString\":1}}''" blank "[]"] p4
  have c4: "responseContainer_innerHTML
         (snd (displayResult offline (JStr ''{\"final_summary\":{\"toString\":1}}'') [] True blank)) =
       ''<p class=\"text-red-600 font-bold\">Error parsing JSON output. Raw Text:</p><p class=\"whitespace-pre-wrap\">{\"final_summary\":{\"toString\":1}}</p>''
     \<and> currentResponse
         (snd (displayResult offline (JStr ''{\"final_summary\":{\"toString\":1}}'') [] True blank)) =
       JStr ''{\"final_summary\":{\"toString\":1}}''"
    by simp
  from shape_is_not_validated [OF s, of "''{\"final_summary\":[\"a\",null,true]}''" blank "[]"] p5
  have c5: "responseContainer_innerHTML
         (snd (displayResult offline (JStr ''{\"final_summary\":[\"a\",null,true]}'') [] True blank)) =
       ''<pre class=\"code-block\">a,,true</pre>''
     \<and> currentResponse
         (snd (displayResult offline (JStr ''{\"final_summary\":[\"a\",null,true]}'') [] True blank)) =
       JArr [JStr ''a'', JNull, JBool True]"
    by simp
  from c1 c2 c3 c4 c5 show ?thesis by blast
qed

text \<open>
  C10. Calling \<open>displayResult\<close> a second time with the same text, sources and mode,
  on the page the first call left, gives the same outcome and the same page as the first
  call alone: everything it writes is computed from its arguments, and the list of links
  is emptied before it is filled.
\<close>

theorem displayResult_idempotent:
  "displayResult rt text sources isStructured
       (snd (displayResult rt text sources isStructured st)) =
     displayResult rt text sources isStructured st"
  by (auto simp: displayResult_def show_text_def show_sources_def
           split: option.splits sum.splits prod.splits)

theorem displayResult_idempotent_witness:
  "displayResult offline (JStr ''4.'') [] False
       (snd (displayResult offline (JStr ''4.'') [] False blank)) =
     (None, blank\<lparr> responseContainer_innerHTML := ''<p>4.</p>'',
                    summarySection_hidden := False,
                    currentResponse := JStr ''4.'' \<rparr>)"
proof -
  have "displayResult offline (JStr ''4.'') [] False blank =
     (None, blank\<lparr> responseContainer_innerHTML := ''<p>4.</p>'',
                    summarySection_hidden := False,
                    currentResponse := JStr ''4.'' \<rparr>)"
    by (simp add: displayResult_def show_text_def show_sources_def markdown_def blank_def
        atLineTerminator_def lineTerminators_def eval_nat_numeral)
  with displayResult_idempotent [of offline "JStr ''4.''" "[]" False blank]
  show ?thesis by simp
qed

text \<open>
  C9. When the current response is empty (the empty string the script starts with, or any
  other value that counts as false), \<open>handleSummarize\<close> shows the alert
  \<open>No response to summarize\<close> and returns: the page is otherwise unchanged and no call
  of \<open>fetch\<close> is made.
\<close>

theorem nothing_to_summarize:
  assumes "\<not> truthy rt (currentResponse st)"
  shows "handleSummarize rt st =
      (None, st\<lparr> events := events st @ [Alert ''No response to summarize''] \<rparr>)
    \<and> fetches (events (snd (handleSummarize rt st))) = fetches (events st)"
  using assms by (simp add: handleSummarize_def)

theorem nothing_to_summarize_witness:
  "currentResponse blank = JStr []
   \<and> handleSummarize offline blank =
       (None, blank\<lparr> events := [Alert ''No response to summarize''] \<rparr>)
   \<and> fetches (events (snd (handleSummarize offline blank))) = 0"
proof -
  have "\<not> truthy offline (currentResponse blank)" by (simp add: blank_def)
  from nothing_to_summarize [OF this] show ?thesis by (simp add: blank_def)
qed

section \<open>Properties of a call that returns\<close>

text \<open>
  A loop that returns a result made some attempts that raised and then one that returned
  it: the last call of \<open>fetch\<close> it made.
\<close>

lemma loop_returns:
  "generateResponse_loop rt p retryCount evs = (Inr (Some r), evs') \<Longrightarrow>
   \<exists>k. retryCount + k < maxRetries
     \<and> (\<forall>j<k. \<exists>e. attempt rt (fetches evs + j) p = Inl e)
     \<and> attempt rt (fetches evs + k) p = Inr r
     \<and> fetches evs' = fetches evs + k + 1"
proof (induction rt p retryCount evs rule: generateResponse_loop.induct)
  case (1 rt p retryCount evs)
  show ?case
  proof (cases "retryCount < maxRetries")
    case False
    with "1.prems" show ?thesis
      by (subst (asm) generateResponse_loop.simps) simp
  next
    case True
    show ?thesis
    proof (cases "attempt rt (fetches evs) p")
      case (Inr r')
      with True "1.prems" have "r' = r" and "evs' = evs @ [Fetch apiUrlBase p]"
        by (simp_all add: loop_ok)
      with Inr True have
        "retryCount + 0 < maxRetries
         \<and> (\<forall>j<0. \<exists>e. attempt rt (fetches evs + j) p = Inl e)
         \<and> attempt rt (fetches evs + 0) p = Inr r
         \<and> fetches evs' = fetches evs + 0 + 1"
        by simp
      then show ?thesis by blast
    next
      case (Inl error)
      show ?thesis
      proof (cases "retryCount + 1 \<ge> maxRetries")
        case over: True
        with True Inl "1.prems" show ?thesis by (simp add: loop_fail)
      next
        case under: False
        let ?evs2 = "(evs @ [Fetch apiUrlBase p,
                      ConsoleError (''Attempt '' @ decimal (retryCount + 1) @ '' failed:'') error])
               @ [SetTimeout (2 ^ (retryCount + 1) * 1000)]"
        have f2: "fetches ?evs2 = fetches evs + 1" by simp
        from True Inl "1.prems" under have
          "generateResponse_loop rt p (retryCount + 1) ?evs2 = (Inr (Some r), evs')"
          by (simp add: loop_fail)
        from "1.IH" [OF True Inl refl under this] obtain k where
          k: "retryCount + 1 + k < maxRetries"
          and before: "\<forall>j<k. \<exists>e. attempt rt (fetches ?evs2 + j) p = Inl e"
          and at: "attempt rt (fetches ?evs2 + k) p = Inr r"
          and count: "fetches evs' = fetches ?evs2 + k + 1"
          by blast
        have "\<exists>e. attempt rt (fetches evs + j) p = Inl e" if "j < Suc k" for j
        proof (cases j)
          case 0
          with Inl show ?thesis by simp
        next
          case (Suc i)
          with that have "i < k" by simp
          with before obtain e where "attempt rt (fetches ?evs2 + i) p = Inl e" by blast
          with Suc show ?thesis by simp
        qed
        moreover from at have "attempt rt (fetches evs + Suc k) p = Inr r"
          by simp
        moreover from count have "fetches evs' = fetches evs + Suc k + 1"
          by simp
        moreover from k have "retryCount + Suc k < maxRetries" by simp
        ultimately show ?thesis by blast
      qed
    qed
  qed
qed

lemma falsy_own: "\<not> truthy rt v \<Longrightarrow> own v k = JUndefined"
  by (cases v) auto

lemma attribution_source_Inr:
  "attribution_source a = Inr s \<Longrightarrow>
   s = \<lparr> uri = opt (own a ''web'') ''uri'', title = opt (own a ''web'') ''title'' \<rparr>"
  by (auto simp: attribution_source_def split: sum.splits dest: get_Inr)

lemma map_attributions_Inr:
  "map_attributions as = Inr ss \<Longrightarrow>
   ss = map (\<lambda>a. \<lparr> uri = opt (own a ''web'') ''uri'', title = opt (own a ''web'') ''title'' \<rparr>) as"
  by (induction as arbitrary: ss) (auto split: sum.splits dest: attribution_source_Inr)

lemma extract_sources_Inr:
  assumes "extract_sources rt candidate = Inr ss"
  shows "ss =
    (case own (own candidate ''groundingMetadata'') ''groundingAttributions'' of
       JArr as \<Rightarrow>
         filter (\<lambda>source. truthy rt (uri source) \<and> truthy rt (title source))
           (map (\<lambda>a. \<lparr> uri = opt (own a ''web'') ''uri'', title = opt (own a ''web'') ''title'' \<rparr>) as)
     | _ \<Rightarrow> [])"
proof (cases "truthy rt (own candidate ''groundingMetadata'')
    \<and> truthy rt (own (own candidate ''groundingMetadata'') ''groundingAttributions'')")
  case True
  with assms show ?thesis
    by (auto simp: extract_sources_def split: js_value.splits sum.splits dest: map_attributions_Inr)
next
  case False
  with assms have "ss = []" by (simp add: extract_sources_def)
  moreover from False have
    "\<forall>as. own (own candidate ''groundingMetadata'') ''groundingAttributions'' \<noteq> JArr as"
    by (auto simp: falsy_own)
  ultimately show ?thesis by (simp split: js_value.splits)
qed

lemma read_result_sources:
  assumes "read_result rt result = Inr r"
  shows "result_sources r =
    (case own (own (opt0 (own result ''candidates'')) ''groundingMetadata'') ''groundingAttributions'' of
       JArr as \<Rightarrow>
         filter (\<lambda>source. truthy rt (uri source) \<and> truthy rt (title source))
           (map (\<lambda>a. \<lparr> uri = opt (own a ''web'') ''uri'', title = opt (own a ''web'') ''title'' \<rparr>) as)
     | _ \<Rightarrow> [])"
proof -
  from assms obtain candidates ss where
    c: "get result ''candidates'' = Inr candidates"
    and e: "extract_sources rt (opt0 candidates) = Inr ss"
    and r: "result_sources r = ss"
    by (auto simp: read_result_def Let_def split: sum.splits if_splits)
  from c have "candidates = own result ''candidates''" by (rule get_Inr)
  with extract_sources_Inr [OF e] r show ?thesis by simp
qed

lemma attempt_Inr:
  "attempt rt n p = Inr r \<Longrightarrow>
   \<exists>st result. fetch rt n p = Response st (Inr result) \<and> ok st \<and> read_result rt result = Inr r"
  by (auto simp: attempt_def split: fetch_outcome.splits if_splits sum.splits)

text \<open>
  C6. When \<open>generateResponse\<close> returns a result, the attempts before the last one
  raised and the last call of \<open>fetch\<close> it made (the call number \<open>fetches evs + k\<close>,
  where \<open>k + 1\<close> calls were made in all) settled to an \<open>ok\<close> response with a JSON
  body; the sources returned are the grounding attributions of the first candidate of
  that body, each mapped to the pair of its \<open>web.uri\<close> and \<open>web.title\<close>, without the
  pairs whose \<open>uri\<close> or \<open>title\<close> is missing, in the order of the attributions. The test
  of the script is \<open>source.uri && source.title\<close>: a value counts as missing when it is
  absent, \<open>null\<close> or otherwise false (the empty string). When the candidate has no
  \<open>groundingMetadata\<close>, or the metadata no \<open>groundingAttributions\<close>, there are no
  sources.
\<close>

theorem sources_are_the_complete_attributions:
  assumes "generateResponse rt userQuery systemPrompt isGrounded isStructured evs = (Inr (Some r), evs')"
  shows "\<exists>k st result.
    k < maxRetries
    \<and> fetches evs' = fetches evs + k + 1
    \<and> (\<forall>j<k. \<exists>e. attempt rt (fetches evs + j)
                   (make_payload userQuery systemPrompt isGrounded isStructured) = Inl e)
    \<and> fetch rt (fetches evs + k) (make_payload userQuery systemPrompt isGrounded isStructured) =
        Response st (Inr result)
    \<and> ok st
    \<and> result_sources r =
        (case own (own (opt0 (own result ''candidates'')) ''groundingMetadata'') ''groundingAttributions'' of
           JArr as \<Rightarrow>
             filter (\<lambda>source. truthy rt (uri source) \<and> truthy rt (title source))
               (map (\<lambda>a. \<lparr> uri = opt (own a ''web'') ''uri'', title = opt (own a ''web'') ''title'' \<rparr>) as)
         | _ \<Rightarrow> [])
    \<and> (own (opt0 (own result ''candidates'')) ''groundingMetadata'' = JUndefined \<longrightarrow> result_sources r = [])"
proof -
  let ?p = "make_payload userQuery systemPrompt isGrounded isStructured"
  from assms have "generateResponse_loop rt ?p 0 evs = (Inr (Some r), evs')"
    by (simp add: generateResponse_def)
  from loop_returns [OF this] obtain k where
    k: "k < maxRetries"
    and before: "\<forall>j<k. \<exists>e. attempt rt (fetches evs + j) ?p = Inl e"
    and at: "attempt rt (fetches evs + k) ?p = Inr r"
    and count: "fetches evs' = fetches evs + k + 1"
    by auto
  from attempt_Inr [OF at] obtain st result where
    f: "fetch rt (fetches evs + k) ?p = Response st (Inr result)"
    and o: "ok st" and rr: "read_result rt result = Inr r"
    by blast
  note s = read_result_sources [OF rr]
  have "own (opt0 (own result ''candidates'')) ''groundingMetadata'' = JUndefined \<longrightarrow> result_sources r = []"
    using s by simp
  with k count before f o s show ?thesis by blast
qed

theorem sources_are_the_complete_attributions_witness:
  "generateResponse answering ''What is 2+2?'' [] True False [] =
     (Inr (Some \<lparr> result_text = JStr ''4.'',
                  result_sources = [\<lparr> uri = JStr ''https://example.com/a'', title = JStr ''A'' \<rparr>] \<rparr>),
      [Fetch apiUrlBase (make_payload ''What is 2+2?'' [] True False)])
   \<and> generateResponse recovering ''What is 2+2?'' [] True False [] =
     (Inr (Some \<lparr> result_text = JStr ''4.'', result_sources = [] \<rparr>),
      [Fetch apiUrlBase (make_payload ''What is 2+2?'' [] True False),
       ConsoleError ''Attempt 1 failed:'' (TypeError ''Failed to fetch''),
       SetTimeout 2000,
       Fetch apiUrlBase (make_payload ''What is 2+2?'' [] True False)])"
proof -
  let ?p = "make_payload ''What is 2+2?'' [] True False"
  let ?body = "JObj [(''candidates'', JArr [JObj [
            (''content'', JObj [(''parts'', JArr [JObj [(''text'', JStr ''4.'')]])]),
            (''groundingMetadata'', JObj [(''groundingAttributions'', JArr [
               JObj [(''web'', JObj [(''uri'', JStr ''https://example.com/a''), (''title'', JStr ''A'')])],
               JObj [(''web'', JObj [(''uri'', JStr ''https://example.com/b'')])]])])]])]"
  let ?plain = "JObj [(''candidates'', JArr [JObj [
            (''content'', JObj [(''parts'', JArr [JObj [(''text'', JStr ''4.'')]])])]])]"
  have f: "fetch answering n p = Response 200 (Inr ?body)" for n p
    by (simp add: answering_def)
  obtain r where a: "attempt answering n p = Inr r" and t: "result_text r = JStr ''4.''" for n p
    by (simp add: attempt_def f ok_def read_result_def extract_sources_def opt0_def opt_def
        attribution_source_def)
  have run: "generateResponse answering ''What is 2+2?'' [] True False [] =
      (Inr (Some r), [Fetch apiUrlBase ?p])"
    unfolding generateResponse_def by (simp add: loop_ok [OF _ a] maxRetries_def)
  from sources_are_the_complete_attributions [OF run]
  have "result_sources r = [\<lparr> uri = JStr ''https://example.com/a'', title = JStr ''A'' \<rparr>]"
    by (auto simp: f opt0_def opt_def)
  with t have "r = \<lparr> result_text = JStr ''4.'',
      result_sources = [\<lparr> uri = JStr ''https://example.com/a'', title = JStr ''A'' \<rparr>] \<rparr>"
    by (cases r) simp
  with run have first: "generateResponse answering ''What is 2+2?'' [] True False [] =
     (Inr (Some \<lparr> result_text = JStr ''4.'',
                  result_sources = [\<lparr> uri = JStr ''https://example.com/a'', title = JStr ''A'' \<rparr>] \<rparr>),
      [Fetch apiUrlBase ?p])"
    by simp
  have g0: "attempt recovering 0 p = Inl (TypeError ''Failed to fetch'')" for p
    by (simp add: attempt_def recovering_def)
  have g: "fetch recovering (Suc n) p = Response 200 (Inr ?plain)" for n p
    by (simp add: recovering_def)
  obtain r2 where a2: "attempt recovering (Suc 0) p = Inr r2"
    and t2: "result_text r2 = JStr ''4.''" for p
    by (simp add: attempt_def g ok_def read_result_def extract_sources_def opt0_def opt_def)
  let ?evs1 = "[Fetch apiUrlBase ?p, ConsoleError ''Attempt 1 failed:'' (TypeError ''Failed to fetch''),
      SetTimeout 2000]"
  have s1: "generateResponse_loop recovering ?p 0 [] = generateResponse_loop recovering ?p (Suc 0) ?evs1"
    using loop_fail [of 0 recovering "[]" ?p, OF _ ] g0 by (simp add: maxRetries_def)
  have s2: "generateResponse_loop recovering ?p (Suc 0) ?evs1 =
      (Inr (Some r2), ?evs1 @ [Fetch apiUrlBase ?p])"
    by (rule loop_ok) (simp_all add: maxRetries_def a2)
  have run2: "generateResponse recovering ''What is 2+2?'' [] True False [] =
      (Inr (Some r2), ?evs1 @ [Fetch apiUrlBase ?p])"
    unfolding generateResponse_def s1 s2 ..
  from sources_are_the_complete_attributions [OF run2] obtain k st result where
    c: "fetches (?evs1 @ [Fetch apiUrlBase ?p]) = fetches [] + k + 1"
    and h: "fetch recovering (fetches [] + k) ?p = Response st (Inr result)"
    and n: "own (opt0 (own result ''candidates'')) ''groundingMetadata'' = JUndefined \<longrightarrow>
            result_sources r2 = []"
    by blast
  from c have "k = Suc 0" by simp
  with h have "result = ?plain" by (simp add: g)
  with n have "result_sources r2 = []" by (simp add: opt0_def)
  with t2 have "r2 = \<lparr> result_text = JStr ''4.'', result_sources = [] \<rparr>"
    by (cases r2) simp
  with run2 first show ?thesis by simp
qed

section \<open>Who writes the two variables\<close>

lemma setUILoading_frame:
  "currentResponse (setUILoading isLoading st) = currentResponse st"
  "currentSystemPrompt (setUILoading isLoading st) = currentSystemPrompt st"
  "events (setUILoading isLoading st) = events st"
  by (simp_all add: setUILoading_def)

lemma generation_failed_frame:
  "currentResponse (generation_failed error st) = currentResponse st"
  "currentSystemPrompt (generation_failed error st) = currentSystemPrompt st"
  by (simp_all add: generation_failed_def)

lemma summary_failed_frame:
  "currentResponse (summary_failed error st) = currentResponse st"
  "currentSystemPrompt (summary_failed error st) = currentSystemPrompt st"
  by (simp_all add: summary_failed_def)

lemma displayResult_currentSystemPrompt:
  "currentSystemPrompt (snd (displayResult rt text sources isStructured st)) = currentSystemPrompt st"
  by (auto simp: displayResult_def show_text_def show_sources_def
           split: option.splits sum.splits prod.splits)

lemma handleSummarize_frame:
  "currentResponse (snd (handleSummarize rt st)) = currentResponse st"
  "currentSystemPrompt (snd (handleSummarize rt st)) = currentSystemPrompt st"
  by (auto simp: handleSummarize_def Let_def summary_failed_frame
           split: sum.splits prod.splits option.splits)

lemma handleFormSubmit_currentSystemPrompt:
  "currentSystemPrompt (handleFormSubmit rt st) =
     (if trim (user_query_value st) = [] then currentSystemPrompt st
      else trim (system_instruction_value st))"
proof (cases "trim (user_query_value st) = []")
  case True
  then show ?thesis by (simp add: handleFormSubmit_def)
next
  case False
  have d: "currentSystemPrompt (case displayResult rt v ss b st' of
              (None, st2) \<Rightarrow> st2 | (Some error, st2) \<Rightarrow> generation_failed error st2) =
           currentSystemPrompt st'" for v ss b st'
    using displayResult_currentSystemPrompt [of rt v ss b st']
    by (auto simp: generation_failed_frame split: prod.splits option.splits)
  from False show ?thesis
    by (auto simp: handleFormSubmit_def Let_def setUILoading_frame generation_failed_frame d
             split: prod.splits sum.splits option.splits)
qed

lemma handleFormSubmit_currentResponse:
  assumes "currentResponse (handleFormSubmit rt st) \<noteq> currentResponse st"
  shows "\<exists>res evs.
    generateResponse rt (trim (user_query_value st)) (trim (system_instruction_value st))
      (google_grounding_checked st) (structured_output_checked st) (events st) = (Inr (Some res), evs)"
proof (rule ccontr)
  assume n: "\<not> ?thesis"
  have "currentResponse (handleFormSubmit rt st) = currentResponse st"
  proof (cases "trim (user_query_value st) = []")
    case True
    then show ?thesis by (simp add: handleFormSubmit_def)
  next
    case False
    with n show ?thesis
      by (auto simp: handleFormSubmit_def Let_def setUILoading_frame generation_failed_frame
               split: prod.splits sum.splits option.splits)
  qed
  with assms show False by contradiction
qed

text \<open>
  C7. The claim: the pair of the current response and the current system prompt is
  written only by the resolver, on a successful resolution, and the summarize action only
  reads it. The system prompt is written by \<open>handleFormSubmit\<close>, before the request is
  sent: with the form filled in and no network, every attempt fails, nothing is resolved,
  and the current system prompt has changed from the empty string to \<open>Be brief.\<close>
\<close>

theorem system_prompt_is_stored_before_the_request:
  "currentSystemPrompt asking = []
   \<and> fst (generateResponse offline ''What is 2+2?'' ''Be brief.'' False False []) =
       Inl (Error ''Max retries reached. Failed to generate content.'')
   \<and> currentSystemPrompt (handleFormSubmit offline asking) = ''Be brief.''
   \<and> currentResponse (handleFormSubmit offline asking) = JStr []"
proof -
  have a: "attempt offline n p = Inl (TypeError ''Failed to fetch'')" for n p
    by (simp add: attempt_def offline_def)
  have g: "fst (generateResponse offline ''What is 2+2?'' ''Be brief.'' False False []) =
      Inl (Error ''Max retries reached. Failed to generate content.'')"
    unfolding generateResponse_def by (simp add: loop_exhausted [OF a a a a a])
  have q: "trim (user_query_value asking) = ''What is 2+2?''"
    and s: "trim (system_instruction_value asking) = ''Be brief.''"
    by (simp_all add: asking_def blank_def trim_def whiteSpace_def)
  have e: "events asking = []" and f: "\<not> google_grounding_checked asking"
    and t: "\<not> structured_output_checked asking" and c: "currentResponse asking = JStr []"
    and p: "currentSystemPrompt asking = []"
    by (simp_all add: asking_def blank_def)
  have r: "currentResponse (handleFormSubmit offline asking) = currentResponse asking"
  proof (rule ccontr)
    assume "currentResponse (handleFormSubmit offline asking) \<noteq> currentResponse asking"
    from handleFormSubmit_currentResponse [OF this] obtain res evs where
      "generateResponse offline ''What is 2+2?'' ''Be brief.'' False False [] = (Inr (Some res), evs)"
      by (auto simp: q s e f t)
    with g show False by simp
  qed
  have "currentSystemPrompt (handleFormSubmit offline asking) = ''Be brief.''"
    by (simp add: handleFormSubmit_currentSystemPrompt q s)
  with p g r c show ?thesis by simp
qed

text \<open>
  C7, as the script has it: \<open>handleSummarize\<close> writes neither variable, so a summary
  never becomes the current response; \<open>displayResult\<close> writes the current response and
  never the system prompt; \<open>handleFormSubmit\<close> stores the trimmed system prompt whenever
  the query is not empty, whether or not the generation succeeds, and changes the current
  response only when \<open>generateResponse\<close> returned a result, which it hands to
  \<open>displayResult\<close>; the other handlers write neither.
\<close>

theorem writers_of_the_current_pair:
  "currentResponse (snd (handleSummarize rt st)) = currentResponse st
   \<and> currentSystemPrompt (snd (handleSummarize rt st)) = currentSystemPrompt st
   \<and> currentSystemPrompt (snd (displayResult rt text sources isStructured st)) = currentSystemPrompt st
   \<and> currentSystemPrompt (handleFormSubmit rt st) =
       (if trim (user_query_value st) = [] then currentSystemPrompt st
        else trim (system_instruction_value st))
   \<and> (currentResponse (handleFormSubmit rt st) \<noteq> currentResponse st \<longrightarrow>
        (\<exists>res evs.
           generateResponse rt (trim (user_query_value st)) (trim (system_instruction_value st))
             (google_grounding_checked st) (structured_output_checked st) (events st) =
           (Inr (Some res), evs)))
   \<and> currentResponse (closeSummary st) = currentResponse st
   \<and> currentSystemPrompt (closeSummary st) = currentSystemPrompt st
   \<and> currentResponse (structured_output_change st) = currentResponse st
   \<and> currentSystemPrompt (structured_output_change st) = currentSystemPrompt st
   \<and> currentResponse (google_grounding_change st) = currentResponse st
   \<and> currentSystemPrompt (google_grounding_change st) = currentSystemPrompt st"
  using handleFormSubmit_currentResponse [of rt st]
  by (simp add: handleSummarize_frame displayResult_currentSystemPrompt
      handleFormSubmit_currentSystemPrompt closeSummary_def structured_output_change_def
      google_grounding_change_def)
theorem writers_of_the_current_pair_witness:
  "currentSystemPrompt (handleFormSubmit answering asking) = ''Be brief.''
   \<and> currentResponse (handleFormSubmit answering asking) = JStr ''4.''
   \<and> currentResponse (snd (handleSummarize answering (handleFormSubmit answering asking))) = JStr ''4.''
   \<and> currentSystemPrompt (snd (handleSummarize answering (handleFormSubmit answering asking))) = ''Be brief.''
   \<and> (\<exists>res evs. generateResponse answering ''What is 2+2?'' ''Be brief.'' False False [] =
         (Inr (Some res), evs))"
proof -
  have q: "trim (user_query_value asking) = ''What is 2+2?''"
    and s: "trim (system_instruction_value asking) = ''Be brief.''"
    by (simp_all add: asking_def blank_def trim_def whiteSpace_def)
  have e: "events asking = []" and f: "\<not> google_grounding_checked asking"
    and t: "\<not> structured_output_checked asking" and c: "currentResponse asking = JStr []"
    by (simp_all add: asking_def blank_def)
  have a: "attempt answering n p =
      Inr \<lparr> result_text = JStr ''4.'',
            result_sources = [\<lparr> uri = JStr ''https://example.com/a'', title = JStr ''A'' \<rparr>] \<rparr>" for n p
    by (simp add: attempt_def answering_def ok_def read_result_def extract_sources_def opt0_def
        opt_def attribution_source_def)
  have g: "generateResponse answering ''What is 2+2?'' ''Be brief.'' False False [] =
      (Inr (Some \<lparr> result_text = JStr ''4.'',
            result_sources = [\<lparr> uri = JStr ''https://example.com/a'', title = JStr ''A'' \<rparr>] \<rparr>),
       [Fetch apiUrlBase (make_payload ''What is 2+2?'' ''Be brief.'' False False)])"
    unfolding generateResponse_def by (simp add: loop_ok [OF _ a] maxRetries_def)
  have r: "currentResponse (handleFormSubmit answering asking) = JStr ''4.''"
    by (simp add: handleFormSubmit_def Let_def q s e f t g setUILoading_frame displayResult_def
        show_text_def show_sources_def setUILoading_def)
  note w = writers_of_the_current_pair [of answering asking _ _ _]
  note v = writers_of_the_current_pair [of answering "handleFormSubmit answering asking" _ _ _]
  from w have p: "currentSystemPrompt (handleFormSubmit answering asking) = ''Be brief.''"
    by (simp add: q s)
  from w r c have "\<exists>res evs.
      generateResponse answering ''What is 2+2?'' ''Be brief.'' False False [] = (Inr (Some res), evs)"
    by (simp add: q s e f t)
  with v p r show ?thesis by simp
qed

end
